theory Spec2Isabelle
  imports Complex_Main "HOL-Library.Product_Lexorder" "HOL-Library.Multiset"
begin

section \<open>Python strings\<close>

text \<open>
  A Python \<open>str\<close> is a sequence of code points. The texts of this program are French,
  so a \<open>char\<close> stands here for one code point below 256 (Latin-1), not for a UTF-8 byte:
  \<open>length\<close> is Python's \<open>len\<close>, and an accented letter such as U+00E9 is the single
  character \<open>CHR 0xE9\<close>. On these code points \<open>str.lower\<close> maps A-Z and U+00C0-U+00DE
  (without the multiplication sign U+00D7) 32 places up and leaves the rest alone, and
  \<open>str.strip\<close> removes the code points for which \<open>str.isspace\<close> holds.
\<close>

definition lower_char :: "char \<Rightarrow> char" where
  "lower_char c =
     (let n = (of_char c :: nat)
      in if (65 \<le> n \<and> n \<le> 90) \<or> (192 \<le> n \<and> n \<le> 222 \<and> n \<noteq> 215)
         then char_of (n + 32) else c)"

definition lower :: "string \<Rightarrow> string" where
  "lower s = map lower_char s"

definition isspace :: "char \<Rightarrow> bool" where
  "isspace c =
     (let n = (of_char c :: nat)
      in (9 \<le> n \<and> n \<le> 13) \<or> (28 \<le> n \<and> n \<le> 32) \<or> n = 133 \<or> n = 160)"

definition strip :: "string \<Rightarrow> string" where
  "strip s = rev (dropWhile isspace (rev (dropWhile isspace s)))"

definition isdigit :: "char \<Rightarrow> bool" where
  "isdigit c = (let n = (of_char c :: nat) in 48 \<le> n \<and> n \<le> 57)"

text \<open>\<open>startswith s k\<close> is \<open>s.startswith(k)\<close>; \<open>contains k s\<close> is \<open>k in s\<close>.\<close>

fun startswith :: "string \<Rightarrow> string \<Rightarrow> bool" where
  "startswith s [] = True"
| "startswith [] (k # ks) = False"
| "startswith (c # cs) (k # ks) = (c = k \<and> startswith cs ks)"

fun contains :: "string \<Rightarrow> string \<Rightarrow> bool" where
  "contains k [] = (k = [])"
| "contains k (c # cs) = (startswith (c # cs) k \<or> contains k cs)"

text \<open>\<open>any_in ws s\<close> is \<open>any(word in s for word in ws)\<close>.\<close>

definition any_in :: "string list \<Rightarrow> string \<Rightarrow> bool" where
  "any_in ws s = list_ex (\<lambda>w. contains w s) ws"

text \<open>
  \<open>py_int s\<close> is \<open>int(s)\<close> in base 10, \<open>None\<close> where Python raises \<open>ValueError\<close>:
  surrounding white space is dropped, one sign is allowed, and the digits may be separated
  by single underscores. (The interpreter's limit on the number of digits is not modelled.)
\<close>

fun int_rest :: "string \<Rightarrow> bool" where
  "int_rest [] = True"
| "int_rest [c] = isdigit c"
| "int_rest (c # d # ds) =
     (if isdigit c then int_rest (d # ds)
      else c = CHR ''_'' \<and> isdigit d \<and> int_rest ds)"

definition int_body :: "string \<Rightarrow> bool" where
  "int_body s = (case s of [] \<Rightarrow> False | c # cs \<Rightarrow> isdigit c \<and> int_rest cs)"

definition digits_value :: "string \<Rightarrow> nat" where
  "digits_value s = foldl (\<lambda>a c. 10 * a + (of_char c - 48)) 0 (filter isdigit s)"

definition py_int :: "string \<Rightarrow> int option" where
  "py_int s =
     (case strip s of
        [] \<Rightarrow> None
      | c # cs \<Rightarrow>
          if c = CHR ''-'' then (if int_body cs then Some (- int (digits_value cs)) else None)
          else if c = CHR ''+'' then (if int_body cs then Some (int (digits_value cs)) else None)
          else if int_body (c # cs) then Some (int (digits_value (c # cs)))
          else None)"

text \<open>
  The three severity levels, as the strings the program compares, and their order
  (\<open>Faible\<close>, and any other text, lowest).
\<close>

definition Eleve :: string where
  "Eleve = CHR 0xC9 # ''lev'' @ [CHR 0xE9]"

definition Modere :: string where
  "Modere = ''Mod'' @ [CHR 0xE9] @ ''r'' @ [CHR 0xE9]"

definition Faible :: string where
  "Faible = ''Faible''"

definition severity_rank :: "string \<Rightarrow> nat" where
  "severity_rank s = (if s = Eleve then 2 else if s = Modere then 1 else 0)"

text \<open>A parameter dictionary: field name to text. \<open>get_or d k m\<close> is \<open>m.get(k, d)\<close>.\<close>

type_synonym params = "string \<rightharpoonup> string"

definition get_or :: "string \<Rightarrow> string \<Rightarrow> params \<Rightarrow> string" where
  "get_or d k m = (case m k of None \<Rightarrow> d | Some v \<Rightarrow> v)"

section \<open>EmergencyAgent\<close>

definition critical_self_harm :: "string list" where
  "critical_self_harm =
     [''suicide'', ''suicidaire'', ''me tuer'', ''en finir'',
      ''je veux mourir'', ''plus envie de vivre'',
      ''mettre fin '' @ [CHR 0xE0] @ '' mes jours'', ''me suicider'',
      ''overdose'', ''surdose'', ''avaler des pilules'',
      ''me jeter'', ''sauter'', ''pendaison'', ''pendre'']"

record emergency_data =
  ed_is_emergency :: bool
  ed_level :: string
  ed_keywords_found :: "string list"
  ed_type :: "string option"
  ed_urgency_score :: int

definition detect_emergency :: "string \<Rightarrow> emergency_data" where
  "detect_emergency text =
     (let text_lower = lower text;
          keywords_found = filter (\<lambda>keyword. contains keyword text_lower) critical_self_harm
      in if keywords_found \<noteq> []
         then \<lparr>ed_is_emergency = True, ed_level = ''CRITIQUE'',
               ed_keywords_found = keywords_found, ed_type = Some ''self_harm'',
               ed_urgency_score = 10\<rparr>
         else \<lparr>ed_is_emergency = False, ed_level = ''NORMAL'',
               ed_keywords_found = [], ed_type = None, ed_urgency_score = 0\<rparr>)"

text \<open>The protocol dictionary; its message, action list and banner are fixed texts and are left out.\<close>

record protocol =
  hotline :: string
  hotline_name :: string

definition get_emergency_protocol :: "string option \<Rightarrow> protocol" where
  "get_emergency_protocol crisis_type =
     (if crisis_type = Some ''self_harm''
      then \<lparr>hotline = ''3114'',
            hotline_name = ''Num'' @ [CHR 0xE9] @ ''ro National de Pr'' @ [CHR 0xE9]
                           @ ''vention du Suicide''\<rparr>
      else \<lparr>hotline = ''15'', hotline_name = ''SAMU''\<rparr>)"

section \<open>AnalysisAgent\<close>

record assessment =
  severity_level :: string
  urgency_score :: int
  taux_mal_etre :: rat
  sentiment_score :: rat
  needs_orientation :: bool
  an_recommendations :: "string list"
  analyzed_params :: params

definition negative_words :: "string list" where
  "negative_words =
     [''triste'', ''mal'', ''d'' @ [CHR 0xE9] @ ''prim'' @ [CHR 0xE9], ''anxieux'',
      ''stress'' @ [CHR 0xE9], ''peur'', ''col'' @ [CHR 0xE8] @ ''re'',
      ''d'' @ [CHR 0xE9] @ ''sespoir'', ''seul'', ''vide'']"

definition positive_words :: "string list" where
  "positive_words =
     [''bien'', ''heureux'', ''content'', ''motiv'' @ [CHR 0xE9], ''calme'',
      ''espoir'', ''mieux'', ''confiant'']"

definition count_in :: "string list \<Rightarrow> string \<Rightarrow> nat" where
  "count_in ws s = length (filter (\<lambda>word. contains word s) ws)"

definition analyze_sentiment_simple :: "string \<Rightarrow> rat" where
  "analyze_sentiment_simple text =
     (let text_lower = lower text;
          neg_count = count_in negative_words text_lower;
          pos_count = count_in positive_words text_lower;
          total = neg_count + pos_count
      in if total = 0 then 0
         else (let score = (rat_of_int (int pos_count - int neg_count)) / rat_of_int (int total)
               in max (- 1) (min 1 score)))"

text \<open>
  The intensity as a number: \<open>int(str(intensite).split('/')[0]) if intensite else 5\<close>,
  and 5 when the conversion raises. Field values are texts, so \<open>str\<close> is the identity.
\<close>

definition intensite_num_of :: "params \<Rightarrow> int" where
  "intensite_num_of collected_params =
     (let intensite = get_or ''5'' ''intensite'' collected_params
      in if intensite \<noteq> []
         then (case py_int (takeWhile (\<lambda>c. c \<noteq> CHR ''/'') intensite) of
                 Some n \<Rightarrow> n | None \<Rightarrow> 5)
         else 5)"

definition critical_emotions :: "string list" where
  "critical_emotions =
     [''suicide'', ''suicidaire'', ''d'' @ [CHR 0xE9] @ ''pression'',
      ''d'' @ [CHR 0xE9] @ ''sespoir'', ''mort'']"

definition long_duration_words :: "string list" where
  "long_duration_words = [''mois'', ''ans'', ''ann'' @ [CHR 0xE9] @ ''e'', ''longtemps'']"

text \<open>
  The three rules of the evaluation, in the order of the source. Each takes the running
  pair \<open>(severity_level, urgency_score)\<close> and returns the pair after the rule.
\<close>

definition rule_critical_emotion :: "string \<Rightarrow> string \<times> int \<Rightarrow> string \<times> int" where
  "rule_critical_emotion emotion su =
     (if any_in critical_emotions (lower emotion) then (Eleve, 10) else su)"

definition rule_long_duration :: "string \<Rightarrow> string \<times> int \<Rightarrow> string \<times> int" where
  "rule_long_duration duration_lower su =
     (if any_in long_duration_words duration_lower
      then ((if fst su \<noteq> Eleve then Modere else fst su), min 10 (snd su + 2))
      else su)"

definition rule_intensity :: "int \<Rightarrow> string \<times> int \<Rightarrow> string \<times> int" where
  "rule_intensity intensite_num su =
     (if intensite_num \<ge> 8 then (Eleve, max (snd su) 9)
      else if intensite_num \<ge> 6
      then ((if fst su \<noteq> Eleve then Modere else fst su), max (snd su) 7)
      else su)"

definition base_assessment :: "params \<Rightarrow> string \<times> int" where
  "base_assessment collected_params = (Faible, intensite_num_of collected_params)"

definition analyze_psychological_state :: "params \<Rightarrow> string \<Rightarrow> assessment" where
  "analyze_psychological_state collected_params user_text =
     (let emotion = get_or [] ''emotion'' collected_params;
          duration = get_or [] ''duration'' collected_params;
          symptomes = get_or [] ''symptomes'' collected_params;
          intensite_num = intensite_num_of collected_params;
          duration_lower = lower duration;
          su = rule_intensity intensite_num
                 (rule_long_duration duration_lower
                    (rule_critical_emotion emotion (base_assessment collected_params)));
          severity = fst su;
          urgency = snd su;
          taux = rat_of_int intensite_num / 10;
          sentiment = (if user_text \<noteq> [] then analyze_sentiment_simple user_text else 0);
          orientation = (severity \<in> set [Eleve, Modere] \<or> urgency \<ge> 7
                         \<or> any_in [''mois'', ''ans''] duration_lower);
          recommendations =
            (if severity = Eleve then [''Consultation psychologique recommand'' @ [CHR 0xE9] @ ''e''] else [])
            @ (if contains ''insomnie'' (lower symptomes) \<or> contains ''sommeil'' (lower symptomes)
               then [''Am'' @ [CHR 0xE9] @ ''liorer l'' @ [CHR 0x27] @ ''hygi'' @ [CHR 0xE8] @ ''ne du sommeil''] else [])
            @ (if urgency \<ge> 7 then [''Suivi professionnel conseill'' @ [CHR 0xE9]] else [])
      in \<lparr>severity_level = severity, urgency_score = urgency, taux_mal_etre = taux,
          sentiment_score = sentiment, needs_orientation = orientation,
          an_recommendations = recommendations, analyzed_params = collected_params\<rparr>)"

section \<open>BookingAgent\<close>

record slot =
  slot_date :: string
  slot_time :: string
  provider_name :: string
  booking_link :: string
  slot_mode :: string

text \<open>
  The context dictionary of the booking policy; a field that is \<open>None\<close> is a missing key.
  (\<open>symptomes\<close> is read by the policy and never used.)
\<close>

record booking_context =
  bc_severity_level :: "string option"
  bc_urgency_score :: "int option"
  bc_duration :: "string option"
  bc_is_emergency :: "bool option"

text \<open>
  \<open>re.search(r'(\d+)\s*semaines?', s)\<close>: the leftmost position where a run of digits,
  then white space, then \<open>semaine\<close> begins; the result is group 1, the run of digits.
\<close>

fun search_semaines :: "string \<Rightarrow> string option" where
  "search_semaines [] = None"
| "search_semaines (c # cs) =
     (if isdigit c
         \<and> startswith (dropWhile isspace (dropWhile isdigit (c # cs))) ''semaine''
      then Some (takeWhile isdigit (c # cs))
      else search_semaines cs)"

definition should_propose_slots :: "booking_context \<Rightarrow> bool" where
  "should_propose_slots context =
     (let severity = (case bc_severity_level context of None \<Rightarrow> Faible | Some v \<Rightarrow> v);
          urgency = (case bc_urgency_score context of None \<Rightarrow> 0 | Some v \<Rightarrow> v);
          duration = (case bc_duration context of None \<Rightarrow> [] | Some v \<Rightarrow> v);
          is_emergency = (case bc_is_emergency context of None \<Rightarrow> False | Some v \<Rightarrow> v)
      in if is_emergency then True
         else if severity \<in> set [Eleve, (''Elev'' @ [CHR 0xE9])] then True
         else if urgency \<ge> 7 then True
         else (let duration_lower = (if duration \<noteq> [] then lower duration else [])
               in if any_in [''mois'', ''ans'', (''ann'' @ [CHR 0xE9] @ ''es''), (''ann'' @ [CHR 0xE9] @ ''e'')] duration_lower then True
                  else if (case search_semaines duration_lower of
                             None \<Rightarrow> False
                           | Some ds \<Rightarrow> int (digits_value ds) > 2) then True
                  else if severity = Modere then True
                  else False))"

definition get_booking_reason :: "booking_context \<Rightarrow> string" where
  "get_booking_reason context =
     (let severity = (case bc_severity_level context of None \<Rightarrow> [] | Some v \<Rightarrow> v);
          urgency = (case bc_urgency_score context of None \<Rightarrow> 0 | Some v \<Rightarrow> v)
      in if bc_is_emergency context = Some True
         then (''En raison de l'' @ [CHR 0x27]
               @ ''urgence de votre situation, je vous propose des cr'' @ [CHR 0xE9]
               @ ''neaux de consultation imm'' @ [CHR 0xE9] @ ''diate.'')
         else if severity \<in> set [Eleve, (''Elev'' @ [CHR 0xE9])]
         then (''Votre situation n'' @ [CHR 0xE9]
               @ ''cessite un accompagnement professionnel. Voici des cr'' @ [CHR 0xE9]
               @ ''neaux disponibles.'')
         else if urgency \<ge> 7
         then (''Compte tenu du niveau d'' @ [CHR 0x27]
               @ ''urgence de votre situation, je vous recommande de consulter''
               @ '' rapidement.'')
         else (''Je vous propose des cr'' @ [CHR 0xE9]
               @ ''neaux de consultation pour un suivi adapt'' @ [CHR 0xE9] @ '' ''
               @ [CHR 0xE0] @ '' votre situation.''))"

record booking_result =
  needs_booking :: bool
  bk_slots :: "slot list"
  bk_reason :: string

text \<open>
  \<open>generate_slots\<close> asks the text-generation service for three slots and falls back to
  three fixed ones; it never raises. Its result is the argument \<open>generated\<close>.
\<close>

definition process_booking_decision :: "slot list \<Rightarrow> booking_context \<Rightarrow> booking_result" where
  "process_booking_decision generated analysis_context =
     (let needs = should_propose_slots analysis_context
      in if needs
         then \<lparr>needs_booking = needs, bk_slots = generated,
               bk_reason = get_booking_reason analysis_context\<rparr>
         else \<lparr>needs_booking = needs, bk_slots = [],
               bk_reason = (''Situation ne n'' @ [CHR 0xE9]
                            @ ''cessite pas de consultation imm'' @ [CHR 0xE9] @ ''diate'')\<rparr>)"

section \<open>CalendarAgent\<close>

text \<open>
  An event of the calendar, as the read endpoint returns it; a field that is \<open>None\<close> is a
  missing key. Hours and priorities are JSON numbers, modelled as rationals with exact
  arithmetic.
\<close>

record event =
  ev_id :: "string option"
  ev_title :: "string option"
  ev_duration_hours :: "rat option"
  ev_priority :: "rat option"
  ev_start :: "string option"

definition SEUIL_HEURES_JOURNALIER :: rat where
  "SEUIL_HEURES_JOURNALIER = 8"

text \<open>
  What the read endpoint answers: a \<open>RequestException\<close> with its text, or a reply with its
  \<open>code\<close>, the \<open>message\<close> and the \<open>events\<close> of its \<open>details\<close>.
\<close>

datatype get_outcome = GetFailed string | GetReply int "string option" "event list"

text \<open>The diagnostic text, by its template and the values formatted into it.\<close>

datatype diagnostic =
    DiagEndpointNonConfigure
  | DiagMessage string
  | DiagAgenda string nat rat
  | DiagErreurReseau string

definition truthy :: "string option \<Rightarrow> bool" where
  "truthy v = (case v of None \<Rightarrow> False | Some s \<Rightarrow> s \<noteq> [])"

definition consulter_agenda ::
  "string option \<Rightarrow> get_outcome \<Rightarrow> string \<Rightarrow> diagnostic \<times> event list \<times> rat" where
  "consulter_agenda agenda_endpoint outcome date =
     (if \<not> truthy agenda_endpoint then (DiagEndpointNonConfigure, [], 0)
      else case outcome of
             GetFailed e \<Rightarrow> (DiagErreurReseau e, [], 0)
           | GetReply code message events \<Rightarrow>
               if code \<noteq> 200
               then (DiagMessage (case message of None \<Rightarrow> ''Erreur inconnue'' | Some m \<Rightarrow> m), [], 0)
               else (let total_duration_h =
                           sum_list (map (\<lambda>e. case ev_duration_hours e of None \<Rightarrow> 0 | Some d \<Rightarrow> d) events)
                     in (DiagAgenda date (length events) total_duration_h, events, total_duration_h)))"

text \<open>The reason texts and the calendar messages, by their template and the values formatted into them.\<close>

datatype cal_reason = AllegerLaCharge rat | ChargeFaibleBienEtre rat rat

datatype cal_message =
    NoMessage
  | MsgJourneeChargee rat nat
  | MsgImpossibleIdentifier
  | MsgPauseAjoutee
  | MsgImpossibleAjouter string
  | MsgErreurAjout string

record proposed_change =
  pc_action :: string
  pc_event_id :: string
  pc_event_title :: string
  pc_event_start :: string
  pc_duration :: rat
  pc_reason :: cal_reason

record action_effectuee =
  ae_action :: string
  ae_event_title :: string
  ae_duration :: rat
  ae_reason :: cal_reason

record calendar_result =
  charge_totale_heures :: rat
  nombre_evenements :: nat
  charge_excessive :: bool
  proposed_changes :: "proposed_change list"
  actions_effectuees :: "action_effectuee list"
  calendar_message :: cal_message
  awaiting_confirmation :: bool

text \<open>
  A request to the write endpoint (the JSON body of the POST), and what the endpoint
  answers: a \<open>RequestException\<close>, any other exception, or a reply with its \<open>success\<close> and
  \<open>message\<close>.
\<close>

record post_request =
  pr_action :: string
  pr_date :: string
  pr_title :: string
  pr_duration_hours :: rat
  pr_description :: cal_reason

datatype post_outcome = PostFailed string | PostRaised string | PostReply bool "string option"

record action_result =
  ar_success :: bool
  ar_message :: "string option"

text \<open>
  \<open>executer_action_agenda\<close> returns its result, or \<open>Inl\<close> the exception it lets through,
  together with the list of the requests it has sent to the write endpoint.
\<close>

definition executer_action_agenda ::
  "string option \<Rightarrow> (post_request \<Rightarrow> post_outcome) \<Rightarrow> string \<Rightarrow> post_request
   \<Rightarrow> (string + action_result) \<times> post_request list" where
  "executer_action_agenda agenda_endpoint post action payload =
     (if \<not> truthy agenda_endpoint
      then (Inr \<lparr>ar_success = False, ar_message = Some (''Endpoint non configur''
                                                               @ [CHR 0xE9])\<rparr>, [])
      else if action = ''ADD'' \<or> action = ''DELETE''
      then (let request = payload\<lparr>pr_action := (if action = ''ADD'' then ''add'' else ''delete'')\<rparr>
            in case post request of
                 PostFailed e \<Rightarrow> (Inr \<lparr>ar_success = False, ar_message = Some e\<rparr>, [request])
               | PostRaised e \<Rightarrow> (Inl e, [request])
               | PostReply ok m \<Rightarrow> (Inr \<lparr>ar_success = ok, ar_message = m\<rparr>, [request]))
      else (Inr \<lparr>ar_success = False,
                 ar_message = Some (''Action '' @ [CHR 0x27] @ action @ [CHR 0x27] @ ('' non support''
                                                                                      @ [CHR 0xE9]
                                                                                      @ ''e''))\<rparr>, []))"

text \<open>The sort key of the overload case: priority (5 when missing), then minus the duration (1 when missing).\<close>

definition overload_key :: "event \<Rightarrow> rat \<times> rat" where
  "overload_key e =
     ((case ev_priority e of None \<Rightarrow> 5 | Some p \<Rightarrow> p),
      - (case ev_duration_hours e of None \<Rightarrow> 1 | Some d \<Rightarrow> d))"

definition event_duration :: "event \<Rightarrow> rat" where
  "event_duration e = (case ev_duration_hours e of None \<Rightarrow> 1 | Some d \<Rightarrow> d)"

definition delete_proposal :: "rat \<Rightarrow> event \<Rightarrow> proposed_change" where
  "delete_proposal total_duration_h e =
     \<lparr>pc_action = ''DELETE'',
      pc_event_id = (case ev_id e of None \<Rightarrow> [] | Some i \<Rightarrow> i),
      pc_event_title = (case ev_title e of None \<Rightarrow> ''Sans titre'' | Some t \<Rightarrow> t),
      pc_event_start = (case ev_start e of None \<Rightarrow> ''N/A'' | Some s \<Rightarrow> s),
      pc_duration = event_duration e,
      pc_reason = AllegerLaCharge total_duration_h\<rparr>"

text \<open>
  The loop over the sorted events, with its two variables \<open>freed_hours\<close> and
  \<open>proposed_changes\<close>: it stops once enough hours are freed, and passes over an event whose
  \<open>id\<close> is missing or empty.
\<close>

fun propose_deletions ::
  "rat \<Rightarrow> rat \<Rightarrow> event list \<Rightarrow> rat \<Rightarrow> proposed_change list \<Rightarrow> proposed_change list \<times> rat" where
  "propose_deletions total_duration_h hours_to_free [] freed_hours proposed = (proposed, freed_hours)"
| "propose_deletions total_duration_h hours_to_free (e # es) freed_hours proposed =
     (if freed_hours \<ge> hours_to_free then (proposed, freed_hours)
      else if \<not> truthy (ev_id e)
      then propose_deletions total_duration_h hours_to_free es freed_hours proposed
      else propose_deletions total_duration_h hours_to_free es
             (freed_hours + event_duration e)
             (proposed @ [delete_proposal total_duration_h e]))"

definition handle_overload_case ::
  "string \<Rightarrow> rat \<Rightarrow> rat \<Rightarrow> event list \<Rightarrow> calendar_result \<times> post_request list" where
  "handle_overload_case date total_duration_h taux details_evenements =
     (let hours_to_free = total_duration_h - SEUIL_HEURES_JOURNALIER;
          sortable_events = sort_key overload_key details_evenements;
          proposed = fst (propose_deletions total_duration_h hours_to_free sortable_events 0 []);
          message = (if proposed \<noteq> []
                     then MsgJourneeChargee total_duration_h (length proposed)
                     else MsgImpossibleIdentifier)
      in (\<lparr>charge_totale_heures = total_duration_h,
            nombre_evenements = length details_evenements,
            charge_excessive = True,
            proposed_changes = proposed,
            actions_effectuees = [],
            calendar_message = message,
            awaiting_confirmation = (length proposed > 0)\<rparr>, []))"

definition handle_wellbeing_case ::
  "string option \<Rightarrow> (post_request \<Rightarrow> post_outcome) \<Rightarrow> string \<Rightarrow> rat \<Rightarrow> rat \<Rightarrow> event list
   \<Rightarrow> calendar_result \<times> post_request list" where
  "handle_wellbeing_case agenda_endpoint post date total_duration_h taux details_evenements =
     (let payload_add = \<lparr>pr_action = [], pr_date = date,
                          pr_title = (''Pause Bien-'' @ [CHR 0xEA] @ ''tre Recommand''
                                      @ [CHR 0xE9] @ ''e''),
                          pr_duration_hours = 1,
                          pr_description = ChargeFaibleBienEtre total_duration_h taux\<rparr>;
          attempt = executer_action_agenda agenda_endpoint post ''ADD'' payload_add;
          done_and_message =
            (case fst attempt of
               Inr add_result \<Rightarrow>
                 if ar_success add_result
                 then ([\<lparr>ae_action = ''ADD'', ae_event_title = pr_title payload_add,
                          ae_duration = 1,
                          ae_reason = ChargeFaibleBienEtre total_duration_h taux\<rparr>],
                       MsgPauseAjoutee)
                 else ([], MsgImpossibleAjouter
                             (case ar_message add_result of None \<Rightarrow> ''Erreur'' | Some m \<Rightarrow> m))
             | Inl e \<Rightarrow> ([], MsgErreurAjout e))
      in (\<lparr>charge_totale_heures = total_duration_h,
            nombre_evenements = length details_evenements,
            charge_excessive = False,
            proposed_changes = [],
            actions_effectuees = fst done_and_message,
            calendar_message = snd done_and_message,
            awaiting_confirmation = False\<rparr>, snd attempt))"

definition analyze_calendar_load ::
  "string option \<Rightarrow> get_outcome \<Rightarrow> (post_request \<Rightarrow> post_outcome) \<Rightarrow> string \<Rightarrow> rat \<Rightarrow> string
   \<Rightarrow> calendar_result \<times> post_request list" where
  "analyze_calendar_load agenda_endpoint outcome post date taux severity =
     (case consulter_agenda agenda_endpoint outcome date of
        (diagnostic, details_evenements, total_duration_h) \<Rightarrow>
          if details_evenements = []
          then (\<lparr>charge_totale_heures = 0, nombre_evenements = 0, charge_excessive = False,
                 proposed_changes = [], actions_effectuees = [],
                 calendar_message = NoMessage, awaiting_confirmation = False\<rparr>, [])
          else (let excessive = (total_duration_h > SEUIL_HEURES_JOURNALIER)
                in if excessive \<and> taux > 50
                   then handle_overload_case date total_duration_h taux details_evenements
                   else if \<not> excessive \<and> taux < 30
                   then handle_wellbeing_case agenda_endpoint post date total_duration_h taux
                          details_evenements
                   else (\<lparr>charge_totale_heures = total_duration_h,
                          nombre_evenements = length details_evenements,
                          charge_excessive = excessive,
                          proposed_changes = [], actions_effectuees = [],
                          calendar_message = NoMessage, awaiting_confirmation = False\<rparr>, [])))"


definition light_day :: "event list" where
  "light_day =
     [\<lparr>ev_id = Some ''a'', ev_title = Some ''Revue'', ev_duration_hours = Some 3,
       ev_priority = Some 2, ev_start = Some ''09:00''\<rparr>,
      \<lparr>ev_id = Some ''d'', ev_title = Some ''Veille'', ev_duration_hours = Some 2,
       ev_priority = Some 1, ev_start = Some ''17:00''\<rparr>]"

definition process_calendar_analysis ::
  "string option \<Rightarrow> get_outcome \<Rightarrow> (post_request \<Rightarrow> post_outcome) \<Rightarrow> string \<Rightarrow> assessment
   \<Rightarrow> calendar_result \<times> post_request list" where
  "process_calendar_analysis agenda_endpoint outcome post date analysis_context =
     analyze_calendar_load agenda_endpoint outcome post date
       (taux_mal_etre analysis_context * 100) (severity_level analysis_context)"

section \<open>The external collaborators of one turn\<close>

text \<open>
  A suggestion of the recommendation agent's resource base, by its \<open>type\<close> and, where it
  has one, its \<open>hotline\<close>; the texts of a suggestion are left out.
\<close>

record resource =
  res_type :: string
  res_hotline :: "string option"

text \<open>
  What the world outside the engine answers during one turn. Each of these calls is made
  at most once in a turn:
  \<^item> \<open>model_available\<close>: whether the agents were given a text-generation model;
  \<^item> \<open>extraction_reply\<close>: the JSON object parsed from the model's answer to the extraction
    prompt (a null value is \<open>None\<close>), or \<open>None\<close> when the call or the parsing raises;
  \<^item> \<open>question_reply\<close>: the text of the model's answer to the question prompt, or \<open>None\<close>
    when the call raises;
  \<^item> \<open>crisis_reply\<close>: the text of the model's answer to the prompt of the emergency
    handler, or \<open>None\<close> when anything in its \<open>try\<close> block raises;
  \<^item> \<open>conversation_reply\<close>: the response of \<open>ConversationAgent.process_conversation_turn\<close>;
  \<^item> \<open>generated_slots\<close>: the result of \<open>BookingAgent.generate_slots\<close>;
  \<^item> \<open>selected_recommendations\<close>: the recommendations of
    \<open>RecommendationAgent.process_recommendation_request\<close>;
  \<^item> \<open>agenda_endpoint\<close>, \<open>agenda_get\<close>, \<open>agenda_post\<close>: the address of the calendar service
    and what its read and write endpoints answer.
\<close>

record turn_env =
  model_available :: bool
  extraction_reply :: "(string \<times> string option) list option"
  question_reply :: "string option"
  crisis_reply :: "string option"
  conversation_reply :: string
  generated_slots :: "slot list"
  selected_recommendations :: "resource list"
  agenda_endpoint :: "string option"
  agenda_get :: get_outcome
  agenda_post :: "post_request \<Rightarrow> post_outcome"

text \<open>A turn with no model and no calendar service configured.\<close>

definition offline_env :: turn_env where
  "offline_env =
     \<lparr>model_available = False, extraction_reply = None, question_reply = None,
      crisis_reply = None, conversation_reply = ''Je vous entends.'', generated_slots = [],
      selected_recommendations = [], agenda_endpoint = None,
      agenda_get = GetFailed ''offline'', agenda_post = (\<lambda>request. PostFailed ''offline'')\<rparr>"

text \<open>A turn in which the model extracts the five fields of the intake at once.\<close>

definition complete_env :: turn_env where
  "complete_env =
     offline_env\<lparr>model_available := True,
       extraction_reply :=
         Some [(''emotion'', Some ''suicide''), (''causes'', Some ''travail''),
               (''duration'', Some ''2 semaines''), (''symptomes'', Some ''insomnie''),
               (''intensite'', Some ''9'')]\<rparr>"

section \<open>RecommendationAgent and EmergencyAgent.handle_crisis\<close>

definition get_crisis_resources :: "resource list" where
  "get_crisis_resources =
     [\<lparr>res_type = ''urgence'', res_hotline = Some ''3114''\<rparr>,
      \<lparr>res_type = ''respiration'', res_hotline = None\<rparr>,
      \<lparr>res_type = ''contact'', res_hotline = None\<rparr>]"

text \<open>
  The result of \<open>handle_crisis\<close>. When no emergency is detected the dictionary has the keys
  \<open>is_emergency\<close> and \<open>emergency_data\<close> only: the other fields are then \<open>None\<close> (or empty).
\<close>

record crisis_result =
  cr_is_emergency :: bool
  cr_emergency_data :: emergency_data
  cr_booking :: "booking_result option"
  cr_recommendations :: "resource list"
  cr_protocol :: "protocol option"
  cr_context :: "booking_context option"

definition handle_crisis :: "turn_env \<Rightarrow> string \<Rightarrow> crisis_result" where
  "handle_crisis env user_message =
     (let emergency_data = detect_emergency user_message
      in if \<not> ed_is_emergency emergency_data
         then \<lparr>cr_is_emergency = False, cr_emergency_data = emergency_data,
               cr_booking = None, cr_recommendations = [], cr_protocol = None,
               cr_context = None\<rparr>
         else (let crisis_context =
                     \<lparr>bc_severity_level = Some Eleve, bc_urgency_score = Some 10,
                      bc_duration = Some (''imm'' @ [CHR 0xE9] @ ''diat''), bc_is_emergency = Some True\<rparr>;
                   booking = process_booking_decision (generated_slots env) crisis_context;
                   recommendations = get_crisis_resources;
                   protocol = get_emergency_protocol (ed_type emergency_data)
               in \<lparr>cr_is_emergency = True, cr_emergency_data = emergency_data,
                   cr_booking = Some booking, cr_recommendations = recommendations,
                   cr_protocol = Some protocol, cr_context = Some crisis_context\<rparr>))"

section \<open>CollectionAgent\<close>

definition REQUIRED_PARAMS :: "string list" where
  "REQUIRED_PARAMS = [''emotion'', ''causes'', ''duration'', ''symptomes'', ''intensite'']"

definition extract_params_with_gemini :: "turn_env \<Rightarrow> string \<Rightarrow> (string \<times> string) list" where
  "extract_params_with_gemini env text =
     (if \<not> model_available env then []
      else case extraction_reply env of
             None \<Rightarrow> []
           | Some params \<Rightarrow>
               concat (map (\<lambda>(k, v). case v of None \<Rightarrow> [] | Some x \<Rightarrow> [(k, x)]) params))"

text \<open>
  The update loop of \<open>collect_parameters\<close>: a new value is stored only when it is not
  empty and the field has no (non-empty) value yet.
\<close>

fun update_collected :: "(string \<times> string) list \<Rightarrow> params \<Rightarrow> params" where
  "update_collected [] collected = collected"
| "update_collected ((key, v) # new_params) collected =
     update_collected new_params
       (if v \<noteq> [] \<and> \<not> truthy (collected key) then collected(key \<mapsto> v) else collected)"

definition fallback_questions :: "string \<Rightarrow> string" where
  "fallback_questions param_name =
     (if param_name = ''emotion'' then ''Comment vous sentez-vous en ce moment ?''
      else if param_name = ''causes''
      then (''Selon vous, qu'' @ [CHR 0x27] @ ''est-ce qui pourrait expliquer cet ''
            @ [CHR 0xE9] @ ''tat ?'')
      else if param_name = ''duration''
      then ''Depuis combien de temps ressentez-vous cela ?''
      else if param_name = ''symptomes''
      then (''Avez-vous remarqu'' @ [CHR 0xE9] @ '' des sympt'' @ [CHR 0xF4]
            @ ''mes particuliers (sommeil, app'' @ [CHR 0xE9] @ ''tit, concentration) ?'')
      else if param_name = ''intensite''
      then (''Sur une '' @ [CHR 0xE9] @ ''chelle de 1 '' @ [CHR 0xE0] @ '' 10, ''
            @ [CHR 0xE0] @ '' quel point ressentez-vous cet inconfort ?'')
      else (''Pouvez-vous m'' @ [CHR 0x27] @ ''en dire plus ?''))"

definition strip_chars :: "string \<Rightarrow> string \<Rightarrow> string" where
  "strip_chars chars s =
     rev (dropWhile (\<lambda>c. c \<in> set chars) (rev (dropWhile (\<lambda>c. c \<in> set chars) s)))"

definition endswith :: "string \<Rightarrow> string \<Rightarrow> bool" where
  "endswith s k = startswith (rev s) (rev k)"

definition generate_question_for_param :: "turn_env \<Rightarrow> string \<Rightarrow> params \<Rightarrow> string" where
  "generate_question_for_param env param_name collected =
     (if \<not> model_available env then fallback_questions param_name
      else case question_reply env of
             Some text \<Rightarrow>
               (let question = strip_chars [CHR 0x27] (strip_chars [CHR 0x22] (strip text))
                in if endswith question ''?'' then question else question @ '' ?'')
           | None \<Rightarrow>
               if param_name = ''duration'' \<and> truthy (collected ''emotion'')
               then ''Depuis combien de temps ressentez-vous ''
                    @ get_or [] ''emotion'' collected @ '' ?''
               else fallback_questions param_name)"

record collection_result =
  is_complete :: bool
  co_collected_params :: params
  missing_params :: "string list"
  next_question :: "string option"
  completion_rate :: rat

definition collect_parameters :: "turn_env \<Rightarrow> string \<Rightarrow> params \<Rightarrow> collection_result" where
  "collect_parameters env user_text current_params =
     (let new_params = extract_params_with_gemini env user_text;
          collected = update_collected new_params current_params;
          missing = filter (\<lambda>p. \<not> truthy (collected p)) REQUIRED_PARAMS;
          rate = (rat_of_nat (length REQUIRED_PARAMS) - rat_of_nat (length missing))
                 / rat_of_nat (length REQUIRED_PARAMS)
      in case missing of
           [] \<Rightarrow> \<lparr>is_complete = True, co_collected_params = collected, missing_params = [],
                  next_question = None, completion_rate = 1\<rparr>
         | next_param # others \<Rightarrow>
             \<lparr>is_complete = False, co_collected_params = collected, missing_params = missing,
              next_question = Some (generate_question_for_param env next_param collected),
              completion_rate = rate\<rparr>)"

section \<open>ZenflowOrchestrator\<close>

datatype ConversationState =
    ROUTING
  | HANDLING_EMERGENCY
  | COLLECTING_PARAMS
  | WAITING_USER_CONFIRMATION
  | ANALYZING_AND_RESPONDING
  | FINAL_RESPONSE_READY

datatype recommendation =
    AgendaRecommendation cal_message "proposed_change list"
  | ResourceRecommendation resource

text \<open>
  The response dictionary of a turn. A key that a response does not have is \<open>None\<close> (the
  empty list for \<open>slots\<close> and \<open>recommendations\<close>); \<open>calendar_analysis\<close> is also \<open>None\<close> when
  it is the empty dictionary. The time stamp of the metadata is left out.
\<close>

record response =
  success :: bool
  response_text :: string
  r_is_emergency :: "bool option"
  r_needs_booking :: "bool option"
  r_slots :: "slot list"
  r_recommendations :: "recommendation list"
  r_emergency_data :: "emergency_data option"
  r_protocol :: "protocol option"
  r_analysis :: "assessment option"
  r_calendar_analysis :: "calendar_result option"
  r_session_id :: "string option"
  r_params_complete :: "bool option"
  r_awaiting_confirmation :: "bool option"
  r_awaiting_more_info :: "bool option"
  r_collected_params :: "params option"
  r_completion_rate :: "rat option"
  r_agents_used :: "string list"

text \<open>
  The session dictionary. \<open>user_confirmed\<close> is only read with a default of \<open>False\<close>, so a
  missing key is \<open>False\<close>; \<open>next_state\<close>, \<open>emergency_data\<close>, \<open>protocol\<close> and
  \<open>final_response\<close> are \<open>None\<close> while the key is missing. The history keeps the messages.
\<close>

record session =
  session_id :: string
  state :: ConversationState
  collected_params :: params
  params_complete :: bool
  user_confirmed :: bool
  is_emergency :: bool
  next_state :: "ConversationState option"
  s_emergency_data :: "emergency_data option"
  s_protocol :: "protocol option"
  final_response :: "response option"
  history :: "string list"

datatype error = KeyError string

definition handle_routing :: "turn_env \<Rightarrow> string \<Rightarrow> session \<Rightarrow> session" where
  "handle_routing env user_message session_data =
     (let emergency_data = detect_emergency user_message
      in if ed_is_emergency emergency_data
         then session_data\<lparr>s_emergency_data := Some emergency_data, state := HANDLING_EMERGENCY\<rparr>
         else if params_complete session_data \<and> user_confirmed session_data
         then session_data\<lparr>state := ANALYZING_AND_RESPONDING\<rparr>
         else if params_complete session_data \<and> \<not> user_confirmed session_data
         then session_data\<lparr>state := WAITING_USER_CONFIRMATION\<rparr>
         else session_data\<lparr>state := COLLECTING_PARAMS\<rparr>)"

definition emergency_fallback_message :: string where
  "emergency_fallback_message =
     (''Je m'' @ [CHR 0x27] @ ''inqui'' @ [CHR 0xE8]
      @ ''te vraiment pour toi... Pourquoi vouloir en finir ? Qu'' @ [CHR 0x27]
      @ ''est-ce qui te fait tant souffrir ? Le 3114 est l'' @ [CHR 0xE0] @ '' pour t''
      @ [CHR 0x27, CHR 0xE9] @ ''couter 24h/24, mais moi aussi je suis l'' @ [CHR 0xE0]
      @ ''. Raconte-moi ce qui se passe.'')"

text \<open>
  The emergency handler. The constructor of the orchestrator stores the model as
  \<open>self.model\<close>, the handler reads \<open>self.gemini_model\<close>: as the source stands the \<open>try\<close>
  block raises and \<open>crisis_reply\<close> is \<open>None\<close>. The handler reads the key \<open>protocol\<close> of the
  crisis result without a default, which raises \<open>KeyError\<close> when no emergency was detected;
  the session then keeps the two assignments made before.
\<close>

definition handle_emergency :: "turn_env \<Rightarrow> string \<Rightarrow> session \<Rightarrow> error option \<times> session" where
  "handle_emergency env user_message session_data =
     (let crisis = handle_crisis env user_message;
          emergency_message = (case crisis_reply env of
                                 Some text \<Rightarrow> strip text
                               | None \<Rightarrow> emergency_fallback_message);
          s1 = session_data\<lparr>is_emergency := True,
                             s_emergency_data := Some (cr_emergency_data crisis)\<rparr>
      in case cr_protocol crisis of
           None \<Rightarrow> (Some (KeyError ''protocol''), s1)
         | Some p \<Rightarrow>
             (let collection = collect_parameters env user_message (collected_params s1);
                  s2 = s1\<lparr>s_protocol := Some p,
                          collected_params := co_collected_params collection\<rparr>;
                  final_response_text =
                    (if \<not> is_complete collection
                     then emergency_message @ [CHR 0x0A, CHR 0x0A]
                          @ (case next_question collection of None \<Rightarrow> ''None'' | Some q \<Rightarrow> q)
                     else emergency_message);
                  s3 = s2\<lparr>next_state := Some (if \<not> is_complete collection
                                                then COLLECTING_PARAMS
                                                else WAITING_USER_CONFIRMATION)\<rparr>
              in (None,
                  s3\<lparr>final_response := Some
                        \<lparr>success = True,
                         response_text = final_response_text,
                         r_is_emergency = Some True,
                         r_needs_booking = None,
                         r_slots = [],
                         r_recommendations = [],
                         r_emergency_data = Some (cr_emergency_data crisis),
                         r_protocol = Some p,
                         r_analysis = None,
                         r_calendar_analysis = None,
                         r_session_id = Some (session_id session_data),
                         r_params_complete = Some (is_complete collection),
                         r_awaiting_confirmation = None,
                         r_awaiting_more_info = None,
                         r_collected_params = Some (co_collected_params collection),
                         r_completion_rate = None,
                         r_agents_used = [''EmergencyAgent'', ''CollectionAgent'']\<rparr>,
                      state := FINAL_RESPONSE_READY\<rparr>)))"

definition confirmation_message :: string where
  "confirmation_message =
     (''Je vous ai bien '' @ [CHR 0xE9] @ ''cout'' @ [CHR 0xE9]
      @ ''. Souhaitez-vous ajouter quelque chose d'' @ [CHR 0x27] @ ''autre ou pr''
      @ [CHR 0xE9] @ ''f'' @ [CHR 0xE9]
      @ ''rez-vous que je vous propose des solutions maintenant ?'')"

definition handle_collecting_params :: "turn_env \<Rightarrow> string \<Rightarrow> session \<Rightarrow> session" where
  "handle_collecting_params env user_message session_data =
     (let collection = collect_parameters env user_message (collected_params session_data);
          s1 = session_data\<lparr>collected_params := co_collected_params collection,
                             params_complete := is_complete collection\<rparr>
      in if is_complete collection
         then s1\<lparr>final_response := Some
                    \<lparr>success = True,
                     response_text = confirmation_message,
                     r_is_emergency = Some (is_emergency session_data),
                     r_needs_booking = Some False,
                     r_slots = [],
                     r_recommendations = [],
                     r_emergency_data = None,
                     r_protocol = None,
                     r_analysis = None,
                     r_calendar_analysis = None,
                     r_session_id = Some (session_id session_data),
                     r_params_complete = Some True,
                     r_awaiting_confirmation = Some True,
                     r_awaiting_more_info = None,
                     r_collected_params = Some (co_collected_params collection),
                     r_completion_rate = None,
                     r_agents_used = [''AnalysisAgent'', ''ConversationAgent'']\<rparr>,
                  next_state := Some WAITING_USER_CONFIRMATION,
                  state := FINAL_RESPONSE_READY\<rparr>
         else s1\<lparr>final_response := Some
                    \<lparr>success = True,
                     response_text = conversation_reply env,
                     r_is_emergency = Some False,
                     r_needs_booking = Some False,
                     r_slots = [],
                     r_recommendations = [],
                     r_emergency_data = None,
                     r_protocol = None,
                     r_analysis = None,
                     r_calendar_analysis = None,
                     r_session_id = Some (session_id session_data),
                     r_params_complete = Some False,
                     r_awaiting_confirmation = None,
                     r_awaiting_more_info = None,
                     r_collected_params = Some (co_collected_params collection),
                     r_completion_rate = Some (completion_rate collection),
                     r_agents_used = [''AnalysisAgent'', ''ConversationAgent'']\<rparr>,
                  state := FINAL_RESPONSE_READY\<rparr>)"

definition negative_tokens :: "string list" where
  "negative_tokens =
     [''non'', ''n'', ''no'', ''nope'', ''rien'', (''rien '' @ [CHR 0xE0] @ '' ajouter''),
      (''c'' @ [CHR 0x27] @ ''est tout''), ([CHR 0xE7] @ ''a suffit'')]"

definition positive_tokens :: "string list" where
  "positive_tokens = [''oui'', ''o'', ''yes'', ''ouais'', ''ok'']"

definition invitation_message :: string where
  "invitation_message =
     (''Je vous '' @ [CHR 0xE9] @ ''coute. N'' @ [CHR 0x27] @ ''h'' @ [CHR 0xE9]
      @ ''sitez pas '' @ [CHR 0xE0] @ '' me dire tout ce qui vous p'' @ [CHR 0xE8] @ ''se.'')"

definition handle_waiting_confirmation :: "string \<Rightarrow> session \<Rightarrow> session" where
  "handle_waiting_confirmation user_message session_data =
     (let user_message_lower = strip (lower user_message)
      in if user_message_lower \<in> set negative_tokens
         then session_data\<lparr>user_confirmed := True, state := ANALYZING_AND_RESPONDING\<rparr>
         else if user_message_lower \<in> set positive_tokens \<or> length user_message > 10
         then session_data\<lparr>final_response := Some
                    \<lparr>success = True,
                     response_text = invitation_message,
                     r_is_emergency = Some (is_emergency session_data),
                     r_needs_booking = Some False,
                     r_slots = [],
                     r_recommendations = [],
                     r_emergency_data = None,
                     r_protocol = None,
                     r_analysis = None,
                     r_calendar_analysis = None,
                     r_session_id = Some (session_id session_data),
                     r_params_complete = Some True,
                     r_awaiting_confirmation = None,
                     r_awaiting_more_info = Some True,
                     r_collected_params = None,
                     r_completion_rate = None,
                     r_agents_used = [''ConversationAgent'']\<rparr>,
                  user_confirmed := False,
                  params_complete := False,
                  state := FINAL_RESPONSE_READY\<rparr>
         else session_data\<lparr>user_confirmed := True, state := ANALYZING_AND_RESPONDING\<rparr>)"

definition run_calendar_agent :: "turn_env \<Rightarrow> assessment \<Rightarrow> calendar_result option" where
  "run_calendar_agent env analysis_result =
     (if \<not> truthy (agenda_endpoint env) then None
      else Some (fst (process_calendar_analysis (agenda_endpoint env) (agenda_get env)
                        (agenda_post env) ''2025-10-30'' analysis_result)))"

definition run_booking_agent :: "turn_env \<Rightarrow> assessment \<Rightarrow> params \<Rightarrow> booking_result" where
  "run_booking_agent env analysis_result collected =
     process_booking_decision (generated_slots env)
       \<lparr>bc_severity_level = Some (severity_level analysis_result),
        bc_urgency_score = Some (urgency_score analysis_result),
        bc_duration = Some (get_or [] ''duration'' collected),
        bc_is_emergency = None\<rparr>"

definition transition_message :: string where
  "transition_message = ''Voici des ressources qui pourraient vous aider...''"

definition handle_analysis_and_response :: "turn_env \<Rightarrow> string \<Rightarrow> session \<Rightarrow> session" where
  "handle_analysis_and_response env user_message session_data =
     (let collected = collected_params session_data;
          analysis_result = analyze_psychological_state collected user_message;
          calendar = run_calendar_agent env analysis_result;
          proposed_agenda_changes = (case calendar of None \<Rightarrow> [] | Some c \<Rightarrow> proposed_changes c);
          booking = run_booking_agent env analysis_result collected;
          resources = map ResourceRecommendation (selected_recommendations env);
          recommendations =
            (if proposed_agenda_changes \<noteq> []
             then AgendaRecommendation
                    (case calendar of None \<Rightarrow> NoMessage | Some c \<Rightarrow> calendar_message c)
                    proposed_agenda_changes # resources
             else resources);
          final_response_text =
            (if needs_booking booking
             then transition_message @ [CHR 0x0A, CHR 0x0A] @ bk_reason booking
             else transition_message)
      in session_data\<lparr>final_response := Some
                    \<lparr>success = True,
                     response_text = final_response_text,
                     r_is_emergency = Some False,
                     r_needs_booking = Some (needs_booking booking),
                     r_slots = bk_slots booking,
                     r_recommendations = recommendations,
                     r_emergency_data = None,
                     r_protocol = None,
                     r_analysis = Some analysis_result,
                     r_calendar_analysis = calendar,
                     r_session_id = Some (session_id session_data),
                     r_params_complete = Some True,
                     r_awaiting_confirmation = None,
                     r_awaiting_more_info = None,
                     r_collected_params = None,
                     r_completion_rate = None,
                     r_agents_used = [''AnalysisAgent'', ''CalendarAgent'', ''BookingAgent'',
                                      ''RecommendationAgent'', ''ConversationAgent'']\<rparr>,
                  state := FINAL_RESPONSE_READY\<rparr>)"

text \<open>One pass through the body of the loop of \<open>process_message\<close>.\<close>

definition step :: "turn_env \<Rightarrow> string \<Rightarrow> session \<Rightarrow> error option \<times> session" where
  "step env user_message session_data =
     (case state session_data of
        ROUTING \<Rightarrow> (None, handle_routing env user_message session_data)
      | HANDLING_EMERGENCY \<Rightarrow> handle_emergency env user_message session_data
      | COLLECTING_PARAMS \<Rightarrow> (None, handle_collecting_params env user_message session_data)
      | WAITING_USER_CONFIRMATION \<Rightarrow> (None, handle_waiting_confirmation user_message session_data)
      | ANALYZING_AND_RESPONDING \<Rightarrow> (None, handle_analysis_and_response env user_message session_data)
      | FINAL_RESPONSE_READY \<Rightarrow> (None, session_data))"

definition state_rank :: "ConversationState \<Rightarrow> nat" where
  "state_rank st =
     (case st of
        ROUTING \<Rightarrow> 3
      | WAITING_USER_CONFIRMATION \<Rightarrow> 2
      | HANDLING_EMERGENCY \<Rightarrow> 1
      | COLLECTING_PARAMS \<Rightarrow> 1
      | ANALYZING_AND_RESPONDING \<Rightarrow> 1
      | FINAL_RESPONSE_READY \<Rightarrow> 0)"

text \<open>
  The loop of \<open>process_message\<close>: it runs the handler of the current state until the state
  is \<open>FINAL_RESPONSE_READY\<close>, or until a handler raises.
\<close>

function run_loop :: "turn_env \<Rightarrow> string \<Rightarrow> session \<Rightarrow> error option \<times> session" where
  "run_loop env user_message session_data =
     (if state session_data = FINAL_RESPONSE_READY then (None, session_data)
      else case step env user_message session_data of
             (Some e, s') \<Rightarrow> (Some e, s')
           | (None, s') \<Rightarrow> run_loop env user_message s')"
  by pat_completeness auto
termination
proof (relation "measure (\<lambda>(env, user_message, s). state_rank (state s))")
  show "wf (measure (\<lambda>(env, user_message, s). state_rank (state s)))"
    by simp
next
  fix env :: turn_env and user_message :: string and session_data x s'
  assume not_final: "state session_data \<noteq> FINAL_RESPONSE_READY"
    and res0: "(x, s') = step env user_message session_data"
    and x: "x = None"
  have res: "step env user_message session_data = (None, s')"
    using res0 x by simp
  have "state_rank (state s') < state_rank (state session_data)"
  proof (cases "state session_data")
    case ROUTING
    then have "s' = handle_routing env user_message session_data"
      using res by (simp add: step_def)
    then show ?thesis
      using ROUTING by (simp add: handle_routing_def state_rank_def Let_def)
  next
    case HANDLING_EMERGENCY
    then have "(None, s') = handle_emergency env user_message session_data"
      using res by (simp add: step_def)
    then have "state s' = FINAL_RESPONSE_READY"
      by (auto simp add: handle_emergency_def Let_def split: option.splits)
    then show ?thesis
      using HANDLING_EMERGENCY by (simp add: state_rank_def)
  next
    case COLLECTING_PARAMS
    then have "s' = handle_collecting_params env user_message session_data"
      using res by (simp add: step_def)
    then have "state s' = FINAL_RESPONSE_READY"
      by (simp add: handle_collecting_params_def Let_def)
    then show ?thesis
      using COLLECTING_PARAMS by (simp add: state_rank_def)
  next
    case WAITING_USER_CONFIRMATION
    then have "s' = handle_waiting_confirmation user_message session_data"
      using res by (simp add: step_def)
    then have "state s' = FINAL_RESPONSE_READY \<or> state s' = ANALYZING_AND_RESPONDING"
      by (simp add: handle_waiting_confirmation_def Let_def)
    then show ?thesis
      using WAITING_USER_CONFIRMATION by (auto simp add: state_rank_def)
  next
    case ANALYZING_AND_RESPONDING
    then have "s' = handle_analysis_and_response env user_message session_data"
      using res by (simp add: step_def)
    then have "state s' = FINAL_RESPONSE_READY"
      by (simp add: handle_analysis_and_response_def Let_def)
    then show ?thesis
      using ANALYZING_AND_RESPONDING by (simp add: state_rank_def)
  next
    case FINAL_RESPONSE_READY
    then show ?thesis using not_final by simp
  qed
  then show "((env, user_message, s'), (env, user_message, session_data))
             \<in> measure (\<lambda>(env, user_message, s). state_rank (state s))"
    by simp
qed

declare run_loop.simps [simp del]

text \<open>
  The session store is a dictionary from session identifiers to sessions.
  \<open>get_or_create_session\<close> returns the store and the session of the turn.
\<close>

type_synonym sessions = "string \<rightharpoonup> session"

definition new_session :: "string \<Rightarrow> session" where
  "new_session sid =
     \<lparr>session_id = sid, state = ROUTING, collected_params = Map.empty,
      params_complete = False, user_confirmed = False, is_emergency = False,
      next_state = None, s_emergency_data = None, s_protocol = None,
      final_response = None, history = []\<rparr>"

definition get_or_create_session :: "sessions \<Rightarrow> string \<Rightarrow> string \<Rightarrow> session" where
  "get_or_create_session store sid user_message =
     (let session = (case store sid of None \<Rightarrow> new_session sid | Some s \<Rightarrow> s);
          session = (if is_emergency session
                     then session\<lparr>state := COLLECTING_PARAMS\<rparr>
                     else session\<lparr>state := ROUTING\<rparr>)
      in session\<lparr>history := history session @ [user_message]\<rparr>)"

definition error_response :: response where
  "error_response =
     \<lparr>success = False, response_text = ''Une erreur est survenue.'',
      r_is_emergency = None, r_needs_booking = None, r_slots = [], r_recommendations = [],
      r_emergency_data = None, r_protocol = None, r_analysis = None,
      r_calendar_analysis = None, r_session_id = None, r_params_complete = None,
      r_awaiting_confirmation = None, r_awaiting_more_info = None,
      r_collected_params = None, r_completion_rate = None, r_agents_used = []\<rparr>"

text \<open>\<open>session_data.get('final_response', ...)\<close>, with the error response as default.\<close>

definition final_response_or_error :: "session \<Rightarrow> response" where
  "final_response_or_error session_data =
     (case final_response session_data of None \<Rightarrow> error_response | Some r \<Rightarrow> r)"

text \<open>
  \<open>apply_next_state\<close> is the first statement of \<open>process_message\<close>: a state scheduled by
  the turn before replaces the state of entry and is removed from the session.
  \<open>process_message\<close> returns the store after the turn and the response of the turn, or
  \<open>Inl\<close> the exception that ended it. The session of the store is the dictionary the
  handlers have updated, also when the turn raises.
\<close>

definition apply_next_state :: "session \<Rightarrow> session" where
  "apply_next_state session_data =
     (case next_state session_data of
        Some st \<Rightarrow> session_data\<lparr>state := st, next_state := None\<rparr>
      | None \<Rightarrow> session_data)"

definition process_message ::
  "turn_env \<Rightarrow> sessions \<Rightarrow> string \<Rightarrow> string \<Rightarrow> sessions \<times> (error + response)" where
  "process_message env store sid user_message =
     (let s0 = get_or_create_session store sid user_message;
          s1 = apply_next_state s0
      in case run_loop env user_message s1 of
           (Some e, s2) \<Rightarrow> (store(sid \<mapsto> s2), Inl e)
         | (None, s2) \<Rightarrow> (store(sid \<mapsto> s2), Inr (final_response_or_error s2)))"

text \<open>The response of a turn that has not raised; the error response for one that has.\<close>

definition response_of :: "sessions \<times> (error + response) \<Rightarrow> response" where
  "response_of result = (case snd result of Inr r \<Rightarrow> r | Inl e \<Rightarrow> error_response)"

definition reset_session :: "sessions \<Rightarrow> string \<Rightarrow> sessions" where
  "reset_session store sid = store(sid := None)"

text \<open>
  The calls a client makes on the store: a turn of a session, with what the collaborators
  answer during it, or the reset of a session. \<open>run_operations\<close> makes them one after the
  other; a turn that raises leaves the store as the handlers have updated it.
\<close>

datatype operation = Turn turn_env string string | Reset string

fun apply_operation :: "sessions \<Rightarrow> operation \<Rightarrow> sessions" where
  "apply_operation store (Turn env sid user_message) = fst (process_message env store sid user_message)"
| "apply_operation store (Reset sid) = reset_session store sid"

definition run_operations :: "operation list \<Rightarrow> sessions \<Rightarrow> sessions" where
  "run_operations ops store = foldl apply_operation store ops"

text \<open>
  A turn in which the model extracts an emotion and a cause, and the session of a user
  whose emergency turn has left the emotion \<open>suicide\<close>.
\<close>

definition overwriting_env :: turn_env where
  "overwriting_env =
     offline_env\<lparr>model_available := True,
       extraction_reply := Some [(''emotion'', Some ''joie''), (''causes'', Some ''travail'')]\<rparr>"

definition flagged_session :: session where
  "flagged_session =
     (new_session ''s1'')\<lparr>is_emergency := True,
                            collected_params := [''emotion'' \<mapsto> ''suicide''],
                            next_state := Some COLLECTING_PARAMS\<rparr>"

section \<open>The loop of a turn\<close>

text \<open>The loop ends after at most three handlers; what it returns, by the state it starts in.\<close>

lemma run_loop_final:
  "state s = FINAL_RESPONSE_READY \<Longrightarrow> run_loop env m s = (None, s)"
  by (subst run_loop.simps) simp

lemma run_loop_step:
  "state s \<noteq> FINAL_RESPONSE_READY \<Longrightarrow>
   run_loop env m s = (case step env m s of (Some e, s') \<Rightarrow> (Some e, s') | (None, s') \<Rightarrow> run_loop env m s')"
  by (subst run_loop.simps) simp

lemma state_handle_analysis [simp]:
  "state (handle_analysis_and_response env m s) = FINAL_RESPONSE_READY"
  by (simp add: handle_analysis_and_response_def Let_def)

lemma state_handle_collecting [simp]:
  "state (handle_collecting_params env m s) = FINAL_RESPONSE_READY"
  by (simp add: handle_collecting_params_def Let_def)

lemma run_loop_analyzing:
  "state s = ANALYZING_AND_RESPONDING \<Longrightarrow>
   run_loop env m s = (None, handle_analysis_and_response env m s)"
  by (simp add: run_loop_step step_def run_loop_final)

lemma run_loop_collecting:
  "state s = COLLECTING_PARAMS \<Longrightarrow>
   run_loop env m s = (None, handle_collecting_params env m s)"
  by (simp add: run_loop_step step_def run_loop_final)

lemma run_loop_waiting:
  "state s = WAITING_USER_CONFIRMATION \<Longrightarrow>
   run_loop env m s =
     (let s' = handle_waiting_confirmation m s
      in if state s' = FINAL_RESPONSE_READY then (None, s')
         else (None, handle_analysis_and_response env m s'))"
proof -
  assume a: "state s = WAITING_USER_CONFIRMATION"
  have st: "state (handle_waiting_confirmation m s) = FINAL_RESPONSE_READY
            \<or> state (handle_waiting_confirmation m s) = ANALYZING_AND_RESPONDING"
    by (simp add: handle_waiting_confirmation_def Let_def)
  show ?thesis
    using a st by (auto simp add: run_loop_step step_def run_loop_final run_loop_analyzing Let_def)
qed

lemma run_loop_emergency:
  "state s = HANDLING_EMERGENCY \<Longrightarrow> run_loop env m s = handle_emergency env m s"
proof -
  assume a: "state s = HANDLING_EMERGENCY"
  have "fst (handle_emergency env m s) = None \<Longrightarrow>
        state (snd (handle_emergency env m s)) = FINAL_RESPONSE_READY"
    by (auto simp add: handle_emergency_def Let_def split: option.splits)
  then show ?thesis
    using a
    by (cases "handle_emergency env m s")
       (auto simp add: run_loop_step step_def run_loop_final split: option.splits)
qed

section \<open>The rules of the scorer on the scale of 0 to 10\<close>

text \<open>
  While the running urgency is at most 10, no rule lowers it, and no rule lowers the
  severity; the sentiment lies between -1 and 1; for a parsed intensity between 0 and 10
  the urgency lies between 0 and 10 and the distress ratio between 0 and 1.
\<close>

lemma rule_critical_emotion_escalates:
  "snd su \<le> 10 \<Longrightarrow>
   snd su \<le> snd (rule_critical_emotion emotion su)
   \<and> severity_rank (fst su) \<le> severity_rank (fst (rule_critical_emotion emotion su))
   \<and> snd (rule_critical_emotion emotion su) \<le> 10"
  by (simp add: rule_critical_emotion_def severity_rank_def)

lemma rule_long_duration_escalates:
  "snd su \<le> 10 \<Longrightarrow>
   snd su \<le> snd (rule_long_duration duration_lower su)
   \<and> severity_rank (fst su) \<le> severity_rank (fst (rule_long_duration duration_lower su))
   \<and> snd (rule_long_duration duration_lower su) \<le> 10"
  by (simp add: rule_long_duration_def severity_rank_def)

lemma rule_intensity_escalates:
  "snd su \<le> snd (rule_intensity intensite_num su)
   \<and> severity_rank (fst su) \<le> severity_rank (fst (rule_intensity intensite_num su))"
  by (simp add: rule_intensity_def severity_rank_def)

lemma rule_intensity_bound:
  "snd su \<le> 10 \<Longrightarrow> snd (rule_intensity intensite_num su) \<le> 10"
  by (simp add: rule_intensity_def)

lemma analyze_sentiment_simple_bounds:
  "- 1 \<le> analyze_sentiment_simple text \<and> analyze_sentiment_simple text \<le> 1"
  by (simp add: analyze_sentiment_simple_def Let_def)

lemma urgency_score_in_range:
  assumes "0 \<le> intensite_num_of collected" and "intensite_num_of collected \<le> 10"
  shows "0 \<le> urgency_score (analyze_psychological_state collected user_text)
         \<and> urgency_score (analyze_psychological_state collected user_text) \<le> 10
         \<and> 0 \<le> taux_mal_etre (analyze_psychological_state collected user_text)
         \<and> taux_mal_etre (analyze_psychological_state collected user_text) \<le> 1"
proof -
  define b where "b = base_assessment collected"
  define s1 where "s1 = rule_critical_emotion (get_or [] ''emotion'' collected) b"
  define s2 where "s2 = rule_long_duration (lower (get_or [] ''duration'' collected)) s1"
  define s3 where "s3 = rule_intensity (intensite_num_of collected) s2"
  have b: "0 \<le> snd b" "snd b \<le> 10"
    using assms by (simp_all add: b_def base_assessment_def)
  have s1: "snd b \<le> snd s1" "snd s1 \<le> 10"
    using rule_critical_emotion_escalates [OF b(2)] by (simp_all add: s1_def)
  have s2: "snd s1 \<le> snd s2" "snd s2 \<le> 10"
    using rule_long_duration_escalates [OF s1(2)] by (simp_all add: s2_def)
  have s3: "snd s2 \<le> snd s3" "snd s3 \<le> 10"
    using rule_intensity_escalates [of s2] rule_intensity_bound [OF s2(2)]
    by (simp_all add: s3_def)
  have u: "urgency_score (analyze_psychological_state collected user_text) = snd s3"
    by (simp add: analyze_psychological_state_def Let_def s3_def s2_def s1_def b_def)
  have t: "taux_mal_etre (analyze_psychological_state collected user_text)
           = rat_of_int (intensite_num_of collected) / 10"
    by (simp add: analyze_psychological_state_def Let_def)
  have "0 \<le> rat_of_int (intensite_num_of collected) / 10"
    "rat_of_int (intensite_num_of collected) / 10 \<le> 1"
    using assms by simp_all
  then show ?thesis
    using b s1 s2 s3 u t by simp
qed

section \<open>What the handlers keep and what they answer\<close>

lemma analysis_keeps:
  "user_confirmed (handle_analysis_and_response env m s) = user_confirmed s"
  "is_emergency (handle_analysis_and_response env m s) = is_emergency s"
  "collected_params (handle_analysis_and_response env m s) = collected_params s"
  "next_state (handle_analysis_and_response env m s) = next_state s"
  "params_complete (handle_analysis_and_response env m s) = params_complete s"
  by (simp_all add: handle_analysis_and_response_def Let_def)

lemma analysis_response:
  "\<exists>r. final_response (handle_analysis_and_response env m s) = Some r
       \<and> success r \<and> r_is_emergency r = Some False
       \<and> r_analysis r = Some (analyze_psychological_state (collected_params s) m)
       \<and> r_awaiting_confirmation r = None \<and> r_awaiting_more_info r = None
       \<and> r_protocol r = None"
  by (simp add: handle_analysis_and_response_def Let_def)

lemma entry_of_pending:
  "store sid = Some s \<Longrightarrow> next_state s = Some st \<Longrightarrow>
   apply_next_state (get_or_create_session store sid m)
     = s\<lparr>state := st, next_state := None, history := history s @ [m]\<rparr>"
  by (simp add: apply_next_state_def get_or_create_session_def Let_def)

section \<open>The emergency path\<close>

lemma startswith_append: "startswith (a @ b) a"
  by (induction a) auto

lemma startswith_self: "startswith a a"
  using startswith_append [of a "[]"] by simp

lemma detect_emergency_iff:
  "ed_is_emergency (detect_emergency m) = (\<exists>k \<in> set critical_self_harm. contains k (lower m))"
  by (auto simp add: detect_emergency_def Let_def filter_empty_conv)

lemma detect_emergency_type:
  "ed_is_emergency (detect_emergency m) \<Longrightarrow> ed_type (detect_emergency m) = Some ''self_harm''"
  by (auto simp add: detect_emergency_def Let_def split: if_splits)

lemma handle_crisis_detected:
  assumes "ed_is_emergency (detect_emergency m)"
  shows "cr_protocol (handle_crisis env m) = Some (get_emergency_protocol (Some ''self_harm''))"
    and "cr_emergency_data (handle_crisis env m) = detect_emergency m"
  using assms detect_emergency_type [OF assms] by (simp_all add: handle_crisis_def Let_def)

lemma handle_emergency_detected:
  assumes "ed_is_emergency (detect_emergency m)"
  shows "\<exists>s' r. handle_emergency env m s = (None, s')
           \<and> state s' = FINAL_RESPONSE_READY \<and> is_emergency s'
           \<and> s_emergency_data s' = Some (detect_emergency m)
           \<and> final_response s' = Some r
           \<and> success r \<and> r_is_emergency r = Some True
           \<and> r_protocol r = Some (get_emergency_protocol (Some ''self_harm''))
           \<and> r_emergency_data r = Some (detect_emergency m)
           \<and> r_agents_used r = [''EmergencyAgent'', ''CollectionAgent'']
           \<and> r_awaiting_confirmation r = None
           \<and> (crisis_reply env = None \<longrightarrow> startswith (response_text r) emergency_fallback_message)"
  using handle_crisis_detected [OF assms, of env]
  by (simp add: handle_emergency_def Let_def startswith_append startswith_self)

lemma run_loop_routing_emergency:
  assumes "state s = ROUTING" and "ed_is_emergency (detect_emergency m)"
  shows "run_loop env m s
         = handle_emergency env m
             (s\<lparr>s_emergency_data := Some (detect_emergency m), state := HANDLING_EMERGENCY\<rparr>)"
proof -
  define s1 where "s1 = s\<lparr>s_emergency_data := Some (detect_emergency m), state := HANDLING_EMERGENCY\<rparr>"
  have "step env m s = (None, s1)"
    using assms by (simp add: step_def handle_routing_def Let_def s1_def)
  then have "run_loop env m s = run_loop env m s1"
    using assms(1) by (simp add: run_loop_step)
  moreover have "state s1 = HANDLING_EMERGENCY"
    by (simp add: s1_def)
  ultimately show ?thesis
    by (simp add: run_loop_emergency s1_def)
qed

lemma entry_at_routing:
  assumes "case store sid of None \<Rightarrow> True | Some s \<Rightarrow> \<not> is_emergency s \<and> next_state s = None"
  shows "state (apply_next_state (get_or_create_session store sid m)) = ROUTING"
  using assms
  by (auto simp add: apply_next_state_def get_or_create_session_def new_session_def Let_def
        split: option.splits)

lemma emergency_turn:
  assumes "ed_is_emergency (detect_emergency m)"
    and "case store sid of None \<Rightarrow> True | Some s \<Rightarrow> \<not> is_emergency s \<and> next_state s = None"
  shows "\<exists>s' r. process_message env store sid m = (store(sid \<mapsto> s'), Inr r)
           \<and> is_emergency s' \<and> s_emergency_data s' = Some (detect_emergency m)
           \<and> success r \<and> r_is_emergency r = Some True
           \<and> r_protocol r = Some (get_emergency_protocol (Some ''self_harm''))
           \<and> r_agents_used r = [''EmergencyAgent'', ''CollectionAgent'']
           \<and> (crisis_reply env = None \<longrightarrow> startswith (response_text r) emergency_fallback_message)"
proof -
  define s0 where "s0 = apply_next_state (get_or_create_session store sid m)"
  define s1 where "s1 = s0\<lparr>s_emergency_data := Some (detect_emergency m), state := HANDLING_EMERGENCY\<rparr>"
  have "state s0 = ROUTING"
    using assms(2) entry_at_routing [of store sid m] by (simp add: s0_def)
  then have loop: "run_loop env m s0 = handle_emergency env m s1"
    using assms(1) by (simp add: run_loop_routing_emergency s1_def)
  obtain s' r where h: "handle_emergency env m s1 = (None, s')"
    "is_emergency s'" "s_emergency_data s' = Some (detect_emergency m)"
    "final_response s' = Some r" "success r" "r_is_emergency r = Some True"
    "r_protocol r = Some (get_emergency_protocol (Some ''self_harm''))"
    "r_agents_used r = [''EmergencyAgent'', ''CollectionAgent'']"
    "crisis_reply env = None \<longrightarrow> startswith (response_text r) emergency_fallback_message"
    using handle_emergency_detected [OF assms(1), of env s1] by auto
  have "process_message env store sid m = (store(sid \<mapsto> s'), Inr r)"
    using loop h(1) h(4)
    by (simp add: process_message_def Let_def s0_def final_response_or_error_def)
  then show ?thesis
    using h by (intro exI [of _ s'] exI [of _ r]) simp
qed

section \<open>What a turn keeps of a session\<close>

lemma update_collected_keeps:
  "collected k = Some v \<Longrightarrow> v \<noteq> [] \<Longrightarrow> update_collected new_params collected k = Some v"
proof (induction new_params arbitrary: collected)
  case Nil
  then show ?case by simp
next
  case (Cons p new_params)
  obtain key x where p: "p = (key, x)"
    by (cases p)
  show ?case
  proof (cases "x \<noteq> [] \<and> \<not> truthy (collected key)")
    case True
    then have "key \<noteq> k"
      using Cons.prems by (auto simp add: truthy_def)
    then have "(collected(key \<mapsto> x)) k = Some v"
      using Cons.prems by simp
    then have "update_collected new_params (collected(key \<mapsto> x)) k = Some v"
      using Cons.IH [of "collected(key \<mapsto> x)"] Cons.prems(2) by blast
    moreover have "update_collected (p # new_params) collected
                   = update_collected new_params (collected(key \<mapsto> x))"
      using True p by simp
    ultimately show ?thesis
      by (simp only:)
  next
    case False
    then have "update_collected (p # new_params) collected = update_collected new_params collected"
      using p by auto
    then show ?thesis
      using Cons.IH [of collected] Cons.prems by simp
  qed
qed

lemma collect_parameters_collected:
  "co_collected_params (collect_parameters env m c)
   = update_collected (extract_params_with_gemini env m) c"
  by (simp add: collect_parameters_def Let_def split: list.splits)

lemma collect_parameters_keeps:
  "c k = Some v \<Longrightarrow> v \<noteq> [] \<Longrightarrow> co_collected_params (collect_parameters env m c) k = Some v"
  by (simp add: collect_parameters_collected update_collected_keeps)

lemma handle_routing_keeps:
  "is_emergency (handle_routing env m s) = is_emergency s"
  "collected_params (handle_routing env m s) = collected_params s"
  by (simp_all add: handle_routing_def Let_def)

lemma handle_waiting_keeps:
  "is_emergency (handle_waiting_confirmation m s) = is_emergency s"
  "collected_params (handle_waiting_confirmation m s) = collected_params s"
  by (simp_all add: handle_waiting_confirmation_def Let_def)

lemma handle_collecting_keeps:
  "is_emergency (handle_collecting_params env m s) = is_emergency s"
  "collected_params (handle_collecting_params env m s)
   = co_collected_params (collect_parameters env m (collected_params s))"
  by (simp_all add: handle_collecting_params_def Let_def)

lemma handle_emergency_keeps:
  "is_emergency (snd (handle_emergency env m s))"
  "collected_params s k = Some v \<Longrightarrow> v \<noteq> [] \<Longrightarrow>
   collected_params (snd (handle_emergency env m s)) k = Some v"
  by (simp_all add: handle_emergency_def Let_def collect_parameters_keeps split: option.splits)

lemma step_keeps:
  "is_emergency s \<Longrightarrow> is_emergency (snd (step env m s))"
  "collected_params s k = Some v \<Longrightarrow> v \<noteq> [] \<Longrightarrow> collected_params (snd (step env m s)) k = Some v"
  by (cases "state s";
      simp add: step_def handle_routing_keeps handle_waiting_keeps handle_collecting_keeps
        handle_emergency_keeps analysis_keeps collect_parameters_keeps)+

lemma run_loop_keeps_flag:
  "is_emergency s \<Longrightarrow> is_emergency (snd (run_loop env m s))"
proof (induction env m s rule: run_loop.induct)
  case (1 env m s)
  show ?case
  proof (cases "state s = FINAL_RESPONSE_READY")
    case True
    then show ?thesis
      using "1.prems" by (simp add: run_loop_final)
  next
    case False
    obtain e s' where st: "step env m s = (e, s')"
      by (cases "step env m s")
    have em: "is_emergency s'"
      using step_keeps(1) [OF "1.prems", of env m] st by simp
    show ?thesis
    proof (cases e)
      case None
      then show ?thesis
        using "1.IH" [OF False st [symmetric]] em st False by (simp add: run_loop_step)
    next
      case (Some err)
      then show ?thesis
        using em st False by (simp add: run_loop_step)
    qed
  qed
qed

lemma run_loop_keeps_field:
  "collected_params s k = Some v \<Longrightarrow> v \<noteq> [] \<Longrightarrow>
   collected_params (snd (run_loop env m s)) k = Some v"
proof (induction env m s rule: run_loop.induct)
  case (1 env m s)
  show ?case
  proof (cases "state s = FINAL_RESPONSE_READY")
    case True
    then show ?thesis
      using "1.prems" by (simp add: run_loop_final)
  next
    case False
    obtain e s' where st: "step env m s = (e, s')"
      by (cases "step env m s")
    have f: "collected_params s' k = Some v"
      using step_keeps(2) [OF "1.prems", of env m] st by simp
    show ?thesis
    proof (cases e)
      case None
      then show ?thesis
        using "1.IH" [OF False st [symmetric]] f "1.prems"(2) st False
        by (simp add: run_loop_step)
    next
      case (Some err)
      then show ?thesis
        using f st False by (simp add: run_loop_step)
    qed
  qed
qed

lemma entry_keeps:
  assumes "store sid = Some s"
  shows "is_emergency (apply_next_state (get_or_create_session store sid m)) = is_emergency s"
    and "collected_params (apply_next_state (get_or_create_session store sid m)) = collected_params s"
  using assms
  by (simp_all add: apply_next_state_def get_or_create_session_def Let_def split: option.splits)

lemma process_message_store:
  "fst (process_message env store sid m)
   = store(sid \<mapsto> snd (run_loop env m (apply_next_state (get_or_create_session store sid m))))"
  by (simp add: process_message_def Let_def split: prod.splits option.splits)

lemma process_message_keeps:
  assumes "store sid = Some s"
  shows "\<exists>s'. fst (process_message env store sid m) sid = Some s'
              \<and> (is_emergency s \<longrightarrow> is_emergency s')
              \<and> (\<forall>k v. collected_params s k = Some v \<and> v \<noteq> [] \<longrightarrow> collected_params s' k = Some v)"
  using assms entry_keeps [of store sid s m]
  by (simp add: process_message_store run_loop_keeps_flag run_loop_keeps_field)

lemma apply_operation_other:
  "op \<noteq> Reset sid \<Longrightarrow> (\<forall>env m. op \<noteq> Turn env sid m) \<Longrightarrow> apply_operation store op sid = store sid"
  by (cases op) (auto simp add: process_message_store reset_session_def)

lemma apply_operation_keeps:
  assumes "store sid = Some s" and "op \<noteq> Reset sid"
  shows "\<exists>s'. apply_operation store op sid = Some s'
              \<and> (is_emergency s \<longrightarrow> is_emergency s')
              \<and> (\<forall>k v. collected_params s k = Some v \<and> v \<noteq> [] \<longrightarrow> collected_params s' k = Some v)"
proof (cases "\<exists>env m. op = Turn env sid m")
  case True
  then obtain env m where "op = Turn env sid m"
    by blast
  then show ?thesis
    using assms(1) process_message_keeps [of store sid s env m] by simp
next
  case False
  then have "apply_operation store op sid = store sid"
    using assms(2) by (simp add: apply_operation_other)
  then show ?thesis
    using assms(1) by simp
qed

section \<open>The loop of the overload case\<close>




lemma consulter_agenda_events:
  "consulter_agenda endpoint outcome date = (diagnostic, events, total_h) \<Longrightarrow>
   events \<noteq> [] \<Longrightarrow> truthy endpoint"
  by (auto simp add: consulter_agenda_def Let_def split: if_splits get_outcome.splits)

section \<open>The severity and urgency scorer\<close>

text \<open>
  C4. Within one evaluation, severity and urgency should only move upward from the base
  derived from the intensity. The rules cap the urgency at 10, but the base is the parsed
  intensity as it comes: for \<open>emotion = "suicide"\<close> and \<open>intensite = "15"\<close> the base
  urgency is 15, the rule on critical emotions sets it to 10, and the evaluation returns 10,
  below the base.
\<close>

theorem C4_urgency_lowered_below_base:
  "snd (base_assessment (Map.empty(''intensite'' \<mapsto> ''15'', ''emotion'' \<mapsto> ''suicide''))) = 15
   \<and> snd (rule_critical_emotion ''suicide''
            (base_assessment (Map.empty(''intensite'' \<mapsto> ''15'', ''emotion'' \<mapsto> ''suicide'')))) = 10
   \<and> urgency_score (analyze_psychological_state
            (Map.empty(''intensite'' \<mapsto> ''15'', ''emotion'' \<mapsto> ''suicide'')) []) = 10"
  by code_simp

text \<open>
  C5. The assessment should have an urgency score between 0 and 10 and a distress ratio
  between 0 and 1. For \<open>intensite = "15"\<close> the evaluation returns the urgency score 15 and
  the distress ratio 3/2: the parsed intensity is used without a bound.
\<close>

theorem C5_intensity_out_of_range:
  "urgency_score (analyze_psychological_state (Map.empty(''intensite'' \<mapsto> ''15'')) []) = 15
   \<and> taux_mal_etre (analyze_psychological_state (Map.empty(''intensite'' \<mapsto> ''15'')) []) = 3 / 2"
  by code_simp

section \<open>The booking policy\<close>

text \<open>
  C6. For every booking context whose \<open>is_emergency\<close> is true, whatever its severity,
  urgency score and duration, the policy proposes slots: \<open>should_propose_slots\<close> is true
  and \<open>process_booking_decision\<close> returns \<open>needs_booking = True\<close> with the generated slots.
  The emergency rule is tested first.
\<close>

theorem C6_emergency_dominates:
  assumes "bc_is_emergency context = Some True"
  shows "should_propose_slots context
         \<and> needs_booking (process_booking_decision generated context)
         \<and> bk_slots (process_booking_decision generated context) = generated"
  using assms by (simp add: should_propose_slots_def process_booking_decision_def Let_def)

text \<open>
  The context of the specification (severity \<open>Faible\<close>, urgency 0, a duration of two days):
  with \<open>is_emergency\<close> it is proposed a booking, without it none of the other rules applies.
\<close>

theorem C6_emergency_dominates_witness:
  "bc_is_emergency \<lparr>bc_severity_level = Some Faible, bc_urgency_score = Some 0,
                    bc_duration = Some ''2 jours'', bc_is_emergency = Some True\<rparr> = Some True
   \<and> should_propose_slots \<lparr>bc_severity_level = Some Faible, bc_urgency_score = Some 0,
                    bc_duration = Some ''2 jours'', bc_is_emergency = Some True\<rparr>
   \<and> needs_booking (process_booking_decision [] \<lparr>bc_severity_level = Some Faible, bc_urgency_score = Some 0,
                    bc_duration = Some ''2 jours'', bc_is_emergency = Some True\<rparr>)
   \<and> \<not> should_propose_slots \<lparr>bc_severity_level = Some Faible, bc_urgency_score = Some 0,
                    bc_duration = Some ''2 jours'', bc_is_emergency = None\<rparr>"
proof -
  have "\<not> should_propose_slots \<lparr>bc_severity_level = Some Faible, bc_urgency_score = Some 0,
                    bc_duration = Some ''2 jours'', bc_is_emergency = None\<rparr>"
    by code_simp
  then show ?thesis
    using C6_emergency_dominates [of "\<lparr>bc_severity_level = Some Faible, bc_urgency_score = Some 0,
                    bc_duration = Some ''2 jours'', bc_is_emergency = Some True\<rparr>" "[]"]
    by simp
qed

section \<open>The confirmation of the intake\<close>

text \<open>
  C3. In the state \<open>WAITING_USER_CONFIRMATION\<close>, for every message whose lower-cased and
  stripped form is one of the negative tokens, the handler sets \<open>user_confirmed\<close> and moves
  to \<open>ANALYZING_AND_RESPONDING\<close>; the loop goes on, so that the turn of a session waiting
  for the confirmation ends with the response of the analysis. The test on the negative
  tokens comes first: the length of the message plays no part.
\<close>

theorem C3_negative_token_confirms:
  assumes "strip (lower user_message) \<in> set negative_tokens"
  shows "handle_waiting_confirmation user_message s
           = s\<lparr>user_confirmed := True, state := ANALYZING_AND_RESPONDING\<rparr>
         \<and> (store sid = Some s \<and> next_state s = Some WAITING_USER_CONFIRMATION \<longrightarrow>
              (\<exists>s' r. process_message env store sid user_message = (store(sid \<mapsto> s'), Inr r)
                     \<and> user_confirmed s' \<and> state s' = FINAL_RESPONSE_READY
                     \<and> r_analysis r
                        = Some (analyze_psychological_state (collected_params s) user_message)))"
proof -
  have h: "\<And>t. handle_waiting_confirmation user_message t
           = t\<lparr>user_confirmed := True, state := ANALYZING_AND_RESPONDING\<rparr>"
    using assms by (simp add: handle_waiting_confirmation_def Let_def)
  have "\<exists>s' r. process_message env store sid user_message = (store(sid \<mapsto> s'), Inr r)
                     \<and> user_confirmed s' \<and> state s' = FINAL_RESPONSE_READY
                     \<and> r_analysis r
                        = Some (analyze_psychological_state (collected_params s) user_message)"
    if a: "store sid = Some s" and b: "next_state s = Some WAITING_USER_CONFIRMATION"
  proof -
    define s1 where "s1 = s\<lparr>state := WAITING_USER_CONFIRMATION, next_state := None,
                            history := history s @ [user_message]\<rparr>"
    define s2 where "s2 = s1\<lparr>user_confirmed := True, state := ANALYZING_AND_RESPONDING\<rparr>"
    define s3 where "s3 = handle_analysis_and_response env user_message s2"
    have e: "apply_next_state (get_or_create_session store sid user_message) = s1"
      using a b by (simp add: entry_of_pending s1_def)
    have "run_loop env user_message s1 = (None, s3)"
      by (simp add: run_loop_waiting h s1_def s2_def s3_def Let_def)
    then have pm: "process_message env store sid user_message
             = (store(sid \<mapsto> s3),
                Inr (final_response_or_error s3))"
      by (simp add: process_message_def Let_def e)
    obtain r where r: "final_response s3 = Some r"
      "r_analysis r = Some (analyze_psychological_state (collected_params s2) user_message)"
      using analysis_response [of env user_message s2] by (auto simp add: s3_def)
    have "user_confirmed s3" "state s3 = FINAL_RESPONSE_READY"
      by (simp_all add: s3_def analysis_keeps s2_def)
    moreover have "collected_params s2 = collected_params s"
      by (simp add: s2_def s1_def)
    ultimately show ?thesis
      using pm r by (intro exI [of _ s3] exI [of _ r]) (simp add: final_response_or_error_def)
  qed
  then show ?thesis using h by blast
qed

text \<open>
  A negative token of more than ten characters, in upper case and followed by a blank:
  the rule on messages of more than ten characters does not reopen the intake.
\<close>

theorem C3_negative_token_confirms_witness:
  "strip (lower (''Rien '' @ [CHR 0xC0] @ '' AJOUTER '')) \<in> set negative_tokens
   \<and> length (''Rien '' @ [CHR 0xC0] @ '' AJOUTER '') > 10
   \<and> state (handle_waiting_confirmation (''Rien '' @ [CHR 0xC0] @ '' AJOUTER '')
               ((new_session ''s1'')\<lparr>next_state := Some WAITING_USER_CONFIRMATION\<rparr>))
       = ANALYZING_AND_RESPONDING
   \<and> user_confirmed (handle_waiting_confirmation (''Rien '' @ [CHR 0xC0] @ '' AJOUTER '')
               ((new_session ''s1'')\<lparr>next_state := Some WAITING_USER_CONFIRMATION\<rparr>))
   \<and> (\<exists>s' r. process_message offline_env
                 [''s1'' \<mapsto> (new_session ''s1'')\<lparr>next_state := Some WAITING_USER_CONFIRMATION\<rparr>]
                 ''s1'' (''Rien '' @ [CHR 0xC0] @ '' AJOUTER '')
               = ([''s1'' \<mapsto> s'], Inr r)
             \<and> user_confirmed s' \<and> r_analysis r \<noteq> None)"
proof -
  have m: "strip (lower (''Rien '' @ [CHR 0xC0] @ '' AJOUTER '')) \<in> set negative_tokens"
    by code_simp
  show ?thesis
    using m C3_negative_token_confirms [OF m,
        of "(new_session ''s1'')\<lparr>next_state := Some WAITING_USER_CONFIRMATION\<rparr>"
           "[''s1'' \<mapsto> (new_session ''s1'')\<lparr>next_state := Some WAITING_USER_CONFIRMATION\<rparr>]"
           "''s1''" offline_env]
    by auto
qed

section \<open>The emergency override\<close>

text \<open>
  C1, as the specification states it: whatever the state of the session, an utterance with a
  critical phrase is answered with \<open>is_emergency = True\<close> through the emergency path. The
  detector runs in the state \<open>ROUTING\<close> only, and a session whose \<open>is_emergency\<close> flag is set
  enters its next turns at \<open>COLLECTING_PARAMS\<close>. After a first emergency turn, the same
  utterance is answered by the intake question, with \<open>is_emergency = False\<close>.
\<close>

theorem C1_no_override_after_emergency:
  "ed_is_emergency (detect_emergency ''je veux me suicider'')
   \<and> r_is_emergency (response_of
        (process_message offline_env Map.empty ''s1'' ''je veux me suicider'')) = Some True
   \<and> r_is_emergency (response_of
        (process_message offline_env
           (fst (process_message offline_env Map.empty ''s1'' ''je veux me suicider''))
           ''s1'' ''je veux me suicider'')) = Some False
   \<and> r_agents_used (response_of
        (process_message offline_env
           (fst (process_message offline_env Map.empty ''s1'' ''je veux me suicider''))
           ''s1'' ''je veux me suicider'')) = [''AnalysisAgent'', ''ConversationAgent'']"
  by code_simp

text \<open>
  C1, amended: for a turn that enters at \<open>ROUTING\<close>, which is the turn of a new session or
  of a session with no pending state and no emergency flag, every utterance that contains a
  critical phrase, in any case of letters, is handled by the emergency handler: the response
  has \<open>is_emergency = True\<close>, the protocol of the hotline and the agents
  \<open>EmergencyAgent\<close> and \<open>CollectionAgent\<close>, and the session is flagged.
\<close>

theorem C1_emergency_override_at_routing:
  assumes "k \<in> set critical_self_harm" and "contains k (lower user_message)"
    and "case store sid of None \<Rightarrow> True | Some s \<Rightarrow> \<not> is_emergency s \<and> next_state s = None"
  shows "\<exists>s' r. process_message env store sid user_message = (store(sid \<mapsto> s'), Inr r)
           \<and> r_is_emergency r = Some True
           \<and> r_protocol r = Some (get_emergency_protocol (Some ''self_harm''))
           \<and> r_agents_used r = [''EmergencyAgent'', ''CollectionAgent'']
           \<and> is_emergency s'
           \<and> s_emergency_data s' = Some (detect_emergency user_message)"
proof -
  have "ed_is_emergency (detect_emergency user_message)"
    using assms(1,2) by (auto simp add: detect_emergency_iff)
  then show ?thesis
    using assms(3) emergency_turn [of user_message store sid env] by blast
qed

theorem C1_emergency_override_at_routing_witness:
  "''en finir'' \<in> set critical_self_harm
   \<and> contains ''en finir'' (lower ''Je veux EN FINIR'')
   \<and> (case (Map.empty :: sessions) ''s1'' of None \<Rightarrow> True
       | Some s \<Rightarrow> \<not> is_emergency s \<and> next_state s = None)
   \<and> (\<exists>s' r. process_message offline_env Map.empty ''s1'' ''Je veux EN FINIR''
                = ([''s1'' \<mapsto> s'], Inr r)
              \<and> r_is_emergency r = Some True \<and> is_emergency s')"
proof -
  have a: "''en finir'' \<in> set critical_self_harm"
    by code_simp
  have b: "contains ''en finir'' (lower ''Je veux EN FINIR'')"
    by code_simp
  have c: "case (Map.empty :: sessions) ''s1'' of None \<Rightarrow> True
           | Some s \<Rightarrow> \<not> is_emergency s \<and> next_state s = None"
    by simp
  show ?thesis
    using a b c
      C1_emergency_override_at_routing [of "''en finir''" "''Je veux EN FINIR''" Map.empty "''s1''" offline_env]
    by blast
qed

section \<open>The emergency reply\<close>

text \<open>
  C9. A turn handled by the emergency handler returns a successful response also when the
  generation of the empathetic reply raises: the handler does not raise, the response has
  \<open>success = True\<close>, \<open>is_emergency = True\<close> and the protocol of the hotline 3114, and when
  the generation has raised its text begins with the fixed message, which names the 3114.
  In particular the utterance \<open>je veux me suicider\<close> on a new session is answered with
  \<open>is_emergency = True\<close> and the hotline 3114, whatever the collaborators answer.
\<close>

theorem C9_emergency_reply_never_fails:
  "(ed_is_emergency (detect_emergency user_message) \<longrightarrow>
      (\<exists>s' r. handle_emergency env user_message s = (None, s')
             \<and> final_response s' = Some r \<and> success r \<and> r_is_emergency r = Some True
             \<and> (\<exists>p. r_protocol r = Some p \<and> hotline p = ''3114'')
             \<and> (crisis_reply env = None
                  \<longrightarrow> startswith (response_text r) emergency_fallback_message)))
   \<and> contains ''3114'' emergency_fallback_message
   \<and> (\<exists>s' r. process_message env Map.empty sid ''je veux me suicider''
                = ([sid \<mapsto> s'], Inr r)
              \<and> success r \<and> r_is_emergency r = Some True
              \<and> (\<exists>p. r_protocol r = Some p \<and> hotline p = ''3114'')
              \<and> (crisis_reply env = None
                   \<longrightarrow> startswith (response_text r) emergency_fallback_message))"
proof -
  have hot: "hotline (get_emergency_protocol (Some ''self_harm'')) = ''3114''"
    by (simp add: get_emergency_protocol_def)
  have one: "\<exists>s' r. handle_emergency env user_message s = (None, s')
             \<and> final_response s' = Some r \<and> success r \<and> r_is_emergency r = Some True
             \<and> (\<exists>p. r_protocol r = Some p \<and> hotline p = ''3114'')
             \<and> (crisis_reply env = None
                  \<longrightarrow> startswith (response_text r) emergency_fallback_message)"
    if d: "ed_is_emergency (detect_emergency user_message)"
    using handle_emergency_detected [OF d, of env s] hot by fastforce
  have two: "contains ''3114'' emergency_fallback_message"
    by code_simp
  have d: "ed_is_emergency (detect_emergency ''je veux me suicider'')"
    by code_simp
  have fresh: "case (Map.empty :: sessions) sid of None \<Rightarrow> True
               | Some s \<Rightarrow> \<not> is_emergency s \<and> next_state s = None"
    by simp
  have three: "\<exists>s' r. process_message env Map.empty sid ''je veux me suicider''
                = ([sid \<mapsto> s'], Inr r)
              \<and> success r \<and> r_is_emergency r = Some True
              \<and> (\<exists>p. r_protocol r = Some p \<and> hotline p = ''3114'')
              \<and> (crisis_reply env = None
                   \<longrightarrow> startswith (response_text r) emergency_fallback_message)"
    using d fresh emergency_turn [of "''je veux me suicider''" Map.empty sid env] hot by fastforce
  show ?thesis
    using one two three by blast
qed

theorem C9_emergency_reply_never_fails_witness:
  "ed_is_emergency (detect_emergency ''je veux en finir'')
   \<and> crisis_reply offline_env = None
   \<and> (\<exists>s' r. handle_emergency offline_env ''je veux en finir'' (new_session ''s1'') = (None, s')
             \<and> final_response s' = Some r \<and> success r \<and> r_is_emergency r = Some True
             \<and> startswith (response_text r) emergency_fallback_message)"
proof -
  have d: "ed_is_emergency (detect_emergency ''je veux en finir'')"
    by code_simp
  have c: "crisis_reply offline_env = None"
    by (simp add: offline_env_def)
  show ?thesis
    using d c C9_emergency_reply_never_fails
                [of "''je veux en finir''" offline_env "new_session ''s1''"]
    by blast
qed

section \<open>The emergency flag of a response\<close>

text \<open>
  C10, as stated: the response of the analysis and the intake question carry
  \<open>is_emergency = False\<close>, and only the response of the emergency turn and the confirmation
  prompt of the completed intake reflect the flag of the session. There is a third one: the
  invitation with which \<open>WAITING_USER_CONFIRMATION\<close> reopens the intake copies the flag of
  the session. After an emergency turn that completes the intake, the answer to \<open>oui\<close> has
  \<open>is_emergency = True\<close>, and it is neither the emergency response (no protocol) nor the
  confirmation prompt (no \<open>awaiting_confirmation\<close>).
\<close>

theorem C10_invitation_reflects_flag:
  "r_is_emergency (response_of (process_message offline_env
        (fst (process_message complete_env Map.empty ''s1'' ''je veux me suicider''))
        ''s1'' ''oui'')) = Some True
   \<and> r_awaiting_more_info (response_of (process_message offline_env
        (fst (process_message complete_env Map.empty ''s1'' ''je veux me suicider''))
        ''s1'' ''oui'')) = Some True
   \<and> r_protocol (response_of (process_message offline_env
        (fst (process_message complete_env Map.empty ''s1'' ''je veux me suicider''))
        ''s1'' ''oui'')) = None
   \<and> r_awaiting_confirmation (response_of (process_message offline_env
        (fst (process_message complete_env Map.empty ''s1'' ''je veux me suicider''))
        ''s1'' ''oui'')) = None"
  by code_simp

text \<open>
  C10, amended: the response assembled in \<open>ANALYZING_AND_RESPONDING\<close> carries
  \<open>is_emergency = False\<close>, and so does the intake question for incomplete parameters,
  whatever the flag of the session; the confirmation prompt of the completed intake and the
  invitation that reopens the intake carry the flag of the session; the response of the
  emergency handler carries \<open>True\<close>.
\<close>

theorem C10_emergency_flag_of_responses:
  "r_is_emergency (final_response_or_error (handle_analysis_and_response env user_message s))
     = Some False
   \<and> r_is_emergency (final_response_or_error (handle_collecting_params env user_message s))
     = Some (if is_complete (collect_parameters env user_message (collected_params s))
             then is_emergency s else False)
   \<and> (if strip (lower user_message) \<notin> set negative_tokens
          \<and> (strip (lower user_message) \<in> set positive_tokens \<or> length user_message > 10)
       then r_is_emergency (final_response_or_error (handle_waiting_confirmation user_message s))
              = Some (is_emergency s)
       else final_response (handle_waiting_confirmation user_message s) = final_response s)
   \<and> (if ed_is_emergency (detect_emergency user_message)
       then r_is_emergency (final_response_or_error (snd (handle_emergency env user_message s)))
              = Some True
       else fst (handle_emergency env user_message s) = Some (KeyError ''protocol''))"
proof -
  have a: "r_is_emergency (final_response_or_error (handle_analysis_and_response env user_message s))
             = Some False"
    using analysis_response [of env user_message s]
    by (auto simp add: final_response_or_error_def)
  have b: "r_is_emergency (final_response_or_error (handle_collecting_params env user_message s))
     = Some (if is_complete (collect_parameters env user_message (collected_params s))
             then is_emergency s else False)"
    by (simp add: final_response_or_error_def handle_collecting_params_def Let_def)
  have c: "if strip (lower user_message) \<notin> set negative_tokens
          \<and> (strip (lower user_message) \<in> set positive_tokens \<or> length user_message > 10)
       then r_is_emergency (final_response_or_error (handle_waiting_confirmation user_message s))
              = Some (is_emergency s)
       else final_response (handle_waiting_confirmation user_message s) = final_response s"
    by (simp add: final_response_or_error_def handle_waiting_confirmation_def Let_def)
  have d: "if ed_is_emergency (detect_emergency user_message)
       then r_is_emergency (final_response_or_error (snd (handle_emergency env user_message s)))
              = Some True
       else fst (handle_emergency env user_message s) = Some (KeyError ''protocol'')"
  proof (cases "ed_is_emergency (detect_emergency user_message)")
    case True
    then show ?thesis
      using handle_emergency_detected [OF True, of env s]
      by (auto simp add: final_response_or_error_def)
  next
    case False
    then show ?thesis
      by (simp add: handle_emergency_def handle_crisis_def Let_def)
  qed
  show ?thesis
    using a b c d by simp
qed

theorem C10_emergency_flag_of_responses_witness:
  "r_is_emergency (final_response_or_error
      (handle_analysis_and_response offline_env ''non'' ((new_session ''s1'')\<lparr>is_emergency := True\<rparr>)))
     = Some False
   \<and> r_is_emergency (final_response_or_error
      (handle_collecting_params offline_env ''bonjour'' ((new_session ''s1'')\<lparr>is_emergency := True\<rparr>)))
     = Some False
   \<and> r_is_emergency (final_response_or_error
      (handle_collecting_params complete_env ''bonjour'' ((new_session ''s1'')\<lparr>is_emergency := True\<rparr>)))
     = Some True
   \<and> r_is_emergency (final_response_or_error
      (handle_waiting_confirmation ''oui'' ((new_session ''s1'')\<lparr>is_emergency := True\<rparr>)))
     = Some True"
proof -
  have i: "\<not> is_complete (collect_parameters offline_env ''bonjour''
              (collected_params ((new_session ''s1'')\<lparr>is_emergency := True\<rparr>)))"
    by code_simp
  have c: "is_complete (collect_parameters complete_env ''bonjour''
              (collected_params ((new_session ''s1'')\<lparr>is_emergency := True\<rparr>)))"
    by code_simp
  have o: "strip (lower ''oui'') \<notin> set negative_tokens
           \<and> strip (lower ''oui'') \<in> set positive_tokens"
    by code_simp
  show ?thesis
    using i c o
      C10_emergency_flag_of_responses [of offline_env "''non''" "(new_session ''s1'')\<lparr>is_emergency := True\<rparr>"]
      C10_emergency_flag_of_responses [of offline_env "''bonjour''" "(new_session ''s1'')\<lparr>is_emergency := True\<rparr>"]
      C10_emergency_flag_of_responses [of complete_env "''bonjour''" "(new_session ''s1'')\<lparr>is_emergency := True\<rparr>"]
      C10_emergency_flag_of_responses [of offline_env "''oui''" "(new_session ''s1'')\<lparr>is_emergency := True\<rparr>"]
    by simp
qed

section \<open>The invariant of a session\<close>

text \<open>
  C2. Along every sequence of turns and resets on the store in which the session is not
  reset, also when a turn raises and whatever the other sessions do: once the \<open>is_emergency\<close>
  flag of the session is true it stays true, and a collected field that has a non-empty
  value keeps this value; a later extraction neither overwrites nor erases it.
\<close>

theorem C2_session_invariant:
  assumes "Reset sid \<notin> set ops" and "store sid = Some s"
  shows "\<exists>s'. run_operations ops store sid = Some s'
              \<and> (is_emergency s \<longrightarrow> is_emergency s')
              \<and> (\<forall>k v. collected_params s k = Some v \<and> v \<noteq> [] \<longrightarrow> collected_params s' k = Some v)"
  using assms
proof (induction ops arbitrary: store s)
  case Nil
  then show ?case by (simp add: run_operations_def)
next
  case (Cons op ops)
  have "op \<noteq> Reset sid"
    using Cons.prems(1) by auto
  then obtain s1 where s1: "apply_operation store op sid = Some s1"
    "is_emergency s \<longrightarrow> is_emergency s1"
    "\<forall>k v. collected_params s k = Some v \<and> v \<noteq> [] \<longrightarrow> collected_params s1 k = Some v"
    using Cons.prems(2) apply_operation_keeps [of store sid s op] by blast
  have "Reset sid \<notin> set ops"
    using Cons.prems(1) by simp
  then obtain s' where s': "run_operations ops (apply_operation store op) sid = Some s'"
    "is_emergency s1 \<longrightarrow> is_emergency s'"
    "\<forall>k v. collected_params s1 k = Some v \<and> v \<noteq> [] \<longrightarrow> collected_params s' k = Some v"
    using s1(1) Cons.IH [of "apply_operation store op" s1] by blast
  have "run_operations (op # ops) store = run_operations ops (apply_operation store op)"
    by (simp add: run_operations_def)
  then show ?case
    using s1 s' by auto
qed

text \<open>
  A session flagged as an emergency, with the emotion \<open>suicide\<close>. In its next turn the
  model extracts the emotion \<open>joie\<close> and the cause \<open>travail\<close>: the cause is stored, the
  emotion is kept. Another session is reset in between.
\<close>

theorem C2_session_invariant_witness:
  "Reset ''s1'' \<notin> set [Turn overwriting_env ''s1'' ''le travail me rend joyeux'', Reset ''s2'',
                          Turn offline_env ''s1'' ''bonjour'']
   \<and> [''s1'' \<mapsto> flagged_session] ''s1'' = Some flagged_session
   \<and> is_emergency flagged_session
   \<and> collected_params flagged_session ''emotion'' = Some ''suicide''
   \<and> (\<exists>s'. run_operations
               [Turn overwriting_env ''s1'' ''le travail me rend joyeux'', Reset ''s2'',
                Turn offline_env ''s1'' ''bonjour'']
               [''s1'' \<mapsto> flagged_session] ''s1'' = Some s'
             \<and> is_emergency s'
             \<and> collected_params s' ''emotion'' = Some ''suicide''
             \<and> collected_params s' ''causes'' = Some ''travail'')"
proof -
  have a: "Reset ''s1'' \<notin> set [Turn overwriting_env ''s1'' ''le travail me rend joyeux'',
                                 Reset ''s2'', Turn offline_env ''s1'' ''bonjour'']"
    by simp
  have b: "[''s1'' \<mapsto> flagged_session] ''s1'' = Some flagged_session"
    by simp
  have c: "is_emergency flagged_session"
    "collected_params flagged_session ''emotion'' = Some ''suicide''"
    by (simp_all add: flagged_session_def)
  have d: "map_option (\<lambda>s'. collected_params s' ''causes'')
             (run_operations
               [Turn overwriting_env ''s1'' ''le travail me rend joyeux'', Reset ''s2'',
                Turn offline_env ''s1'' ''bonjour'']
               [''s1'' \<mapsto> flagged_session] ''s1'') = Some (Some ''travail'')"
    by code_simp
  obtain s' where s': "run_operations
               [Turn overwriting_env ''s1'' ''le travail me rend joyeux'', Reset ''s2'',
                Turn offline_env ''s1'' ''bonjour'']
               [''s1'' \<mapsto> flagged_session] ''s1'' = Some s'"
    "is_emergency s'" "collected_params s' ''emotion'' = Some ''suicide''"
    using a b c
      C2_session_invariant [of "''s1''"
        "[Turn overwriting_env ''s1'' ''le travail me rend joyeux'', Reset ''s2'',
          Turn offline_env ''s1'' ''bonjour'']"
        "[''s1'' \<mapsto> flagged_session]" flagged_session]
    by auto
  have "collected_params s' ''causes'' = Some ''travail''"
    using d s'(1) by simp
  then show ?thesis
    using a b c s' by blast
qed

section \<open>The workload rebalancer\<close>



text \<open>
  C8. When the calendar has events, their total is at most the threshold of 8 hours and the
  distress is below 30, exactly one request is sent to the write endpoint, at once: the
  addition of the break of one hour. The result has no proposal of deletion and awaits no
  confirmation. When the endpoint accepts, the result lists the one addition; when it
  refuses, fails or raises, the result lists none and its message says why, and no second
  request is sent.
\<close>

theorem C8_wellbeing_break:
  assumes "consulter_agenda endpoint outcome date = (diagnostic, events, total_h)"
    and "events \<noteq> []"
    and "total_h \<le> SEUIL_HEURES_JOURNALIER"
    and "taux < 30"
    and "result = analyze_calendar_load endpoint outcome post date taux severity"
    and "request = \<lparr>pr_action = ''add'', pr_date = date,
                      pr_title = ''Pause Bien-'' @ [CHR 0xEA] @ ''tre Recommand'' @ [CHR 0xE9] @ ''e'',
                      pr_duration_hours = 1,
                      pr_description = ChargeFaibleBienEtre total_h taux\<rparr>"
  shows "snd result = [request]
         \<and> proposed_changes (fst result) = []
         \<and> \<not> awaiting_confirmation (fst result)
         \<and> \<not> charge_excessive (fst result)
         \<and> (case post request of
               PostReply ok message \<Rightarrow>
                 if ok
                 then actions_effectuees (fst result)
                        = [\<lparr>ae_action = ''ADD'', ae_event_title = pr_title request,
                            ae_duration = 1,
                            ae_reason = ChargeFaibleBienEtre total_h taux\<rparr>]
                      \<and> calendar_message (fst result) = MsgPauseAjoutee
                 else actions_effectuees (fst result) = []
                      \<and> calendar_message (fst result)
                          = MsgImpossibleAjouter (case message of None \<Rightarrow> ''Erreur'' | Some m \<Rightarrow> m)
             | PostFailed e \<Rightarrow>
                 actions_effectuees (fst result) = []
                 \<and> calendar_message (fst result) = MsgImpossibleAjouter e
             | PostRaised e \<Rightarrow>
                 actions_effectuees (fst result) = []
                 \<and> calendar_message (fst result) = MsgErreurAjout e)"
proof -
  have ep: "truthy endpoint"
    using assms(1,2) by (rule consulter_agenda_events)
  have res: "result = handle_wellbeing_case endpoint post date total_h taux events"
    using assms(1-5) by (simp add: analyze_calendar_load_def Let_def)
  show ?thesis
    using ep
    by (cases "post request")
       (simp_all add: res assms(6) handle_wellbeing_case_def executer_action_agenda_def Let_def)
qed

text \<open>
  The day of the specification: five hours, a distress of 20. With an endpoint that accepts
  there is the one addition and no deletion; with one that fails there is one request, no
  addition and a message.
\<close>

theorem C8_wellbeing_break_witness:
  "consulter_agenda (Some ''https://agenda'') (GetReply 200 None light_day) ''2025-10-30''
     = (DiagAgenda ''2025-10-30'' 2 5, light_day, 5)
   \<and> light_day \<noteq> [] \<and> (5 :: rat) \<le> SEUIL_HEURES_JOURNALIER \<and> (20 :: rat) < 30
   \<and> length (snd (analyze_calendar_load (Some ''https://agenda'') (GetReply 200 None light_day)
                    (\<lambda>request. PostReply True None) ''2025-10-30'' 20 Faible)) = 1
   \<and> map ae_action (actions_effectuees (fst (analyze_calendar_load (Some ''https://agenda'')
                    (GetReply 200 None light_day)
                    (\<lambda>request. PostReply True None) ''2025-10-30'' 20 Faible))) = [''ADD'']
   \<and> proposed_changes (fst (analyze_calendar_load (Some ''https://agenda'')
                    (GetReply 200 None light_day)
                    (\<lambda>request. PostReply True None) ''2025-10-30'' 20 Faible)) = []
   \<and> length (snd (analyze_calendar_load (Some ''https://agenda'') (GetReply 200 None light_day)
                    (\<lambda>request. PostFailed ''timeout'') ''2025-10-30'' 20 Faible)) = 1
   \<and> actions_effectuees (fst (analyze_calendar_load (Some ''https://agenda'')
                    (GetReply 200 None light_day)
                    (\<lambda>request. PostFailed ''timeout'') ''2025-10-30'' 20 Faible)) = []
   \<and> calendar_message (fst (analyze_calendar_load (Some ''https://agenda'')
                    (GetReply 200 None light_day)
                    (\<lambda>request. PostFailed ''timeout'') ''2025-10-30'' 20 Faible))
       = MsgImpossibleAjouter ''timeout''"
proof -
  have a: "consulter_agenda (Some ''https://agenda'') (GetReply 200 None light_day) ''2025-10-30''
             = (DiagAgenda ''2025-10-30'' 2 5, light_day, 5)"
    by code_simp
  have b: "light_day \<noteq> []" "(5 :: rat) \<le> SEUIL_HEURES_JOURNALIER" "(20 :: rat) < 30"
    by (simp_all add: light_day_def SEUIL_HEURES_JOURNALIER_def)
  show ?thesis
    using a b
      C8_wellbeing_break [OF a b refl refl, of "\<lambda>request. PostReply True None" Faible]
      C8_wellbeing_break [OF a b refl refl, of "\<lambda>request. PostFailed ''timeout''" Faible]
    by simp
qed

end
